theory Spec2Isabelle
  imports Main
begin

section \<open>JavaScript values read by the admin front end\<close>

text \<open>
  The admin front end keeps its session in the browser's \<^verbatim>\<open>localStorage\<close> as JSON
  text and talks to the backend through \<^verbatim>\<open>fetch\<close>. Values that went through
  \<^verbatim>\<open>JSON.parse\<close> are modelled by the datatype below. The modelled code never
  calculates with a parsed number: it tests its truthiness and converts it to a string,
  which is the work of the platform's \<^verbatim>\<open>Number.prototype.toString\<close>. A number is
  therefore modelled by the string that conversion gives for it: \<open>''0''\<close> for zero of
  either sign, \<open>''7''\<close>, \<open>''-3''\<close>, \<open>''1.5''\<close>, \<open>''1e+21''\<close>; a string that is the
  conversion of no number stands for no value. An object is the list of its
  own properties in insertion order, read at the first occurrence of a key.
  \<^verbatim>\<open>undefined\<close> is not a JSON value: a property read returns \<open>json option\<close>, with
  \<open>None\<close> for \<^verbatim>\<open>undefined\<close>.
\<close>

datatype json =
    JNull
  | JBool bool
  | JNum string
  | JStr string
  | JArr "json list"
  | JObj "(string \<times> json) list"

datatype error =
    SyntaxError
  | TypeError
  | FetchFailed
  | LoginExpired
  | ApiError json

text \<open>
  \<^verbatim>\<open>v.k\<close> for the keys the modelled code reads (none of them is a property of a
  boolean, a number, a string or an array): reading a property of \<^verbatim>\<open>null\<close> throws a
  TypeError, an object answers with its own property, every other value with
  \<^verbatim>\<open>undefined\<close>.
\<close>

fun get_prop :: "json \<Rightarrow> string \<Rightarrow> error + json option" where
  "get_prop JNull k = Inl TypeError"
| "get_prop (JObj kvs) k = Inr (map_of kvs k)"
| "get_prop v k = Inr None"

text \<open>Truthiness, as \<^verbatim>\<open>if (v)\<close>, \<^verbatim>\<open>a && b\<close> and \<^verbatim>\<open>a || b\<close> test it.\<close>

fun truthy :: "json option \<Rightarrow> bool" where
  "truthy None = False"
| "truthy (Some JNull) = False"
| "truthy (Some (JBool b)) = b"
| "truthy (Some (JNum n)) = (n \<noteq> ''0'')"
| "truthy (Some (JStr s)) = (s \<noteq> [])"
| "truthy (Some (JArr xs)) = True"
| "truthy (Some (JObj kvs)) = True"

text \<open>
  An object literal whose property values may be \<^verbatim>\<open>undefined\<close>: such properties read
  as \<^verbatim>\<open>undefined\<close> and \<^verbatim>\<open>JSON.stringify\<close> leaves them out, so they are dropped.
\<close>

fun object_literal :: "(string \<times> json option) list \<Rightarrow> (string \<times> json) list" where
  "object_literal [] = []"
| "object_literal ((k, None) # ps) = object_literal ps"
| "object_literal ((k, Some v) # ps) = (k, v) # object_literal ps"

subsection \<open>Conversion to strings\<close>

text \<open>
  \<^verbatim>\<open>String(v)\<close>, which is also what \<^verbatim>\<open>v.toString()\<close> computes on a truthy parsed
  value, what a template literal inserts and what a computed property key
  \<^verbatim>\<open>table[v]\<close> is converted to. An array joins its elements with commas, \<^verbatim>\<open>null\<close>
  elements as the empty string. A parsed object inherits \<^verbatim>\<open>Object.prototype.toString\<close>
  unless it has an own property of that name, which is then not callable: the
  conversion throws a TypeError.
\<close>

fun js_toString :: "json \<Rightarrow> error + string"
  and join_elems :: "json list \<Rightarrow> error + string"
  and elem_text :: "json \<Rightarrow> error + string" where
  "js_toString JNull = Inr ''null''"
| "js_toString (JBool b) = Inr (if b then ''true'' else ''false'')"
| "js_toString (JNum n) = Inr n"
| "js_toString (JStr s) = Inr s"
| "js_toString (JArr xs) = join_elems xs"
| "js_toString (JObj kvs) =
     (if map_of kvs ''toString'' \<noteq> None then Inl TypeError else Inr ''[object Object]'')"
| "join_elems [] = Inr ''''"
| "join_elems [x] = elem_text x"
| "join_elems (x # y # ys) =
     (case elem_text x of
        Inl e \<Rightarrow> Inl e
      | Inr a \<Rightarrow> (case join_elems (y # ys) of Inl e \<Rightarrow> Inl e | Inr b \<Rightarrow> Inr (a @ '','' @ b)))"
| "elem_text JNull = Inr ''''"
| "elem_text v = js_toString v"

definition to_text :: "json option \<Rightarrow> error + string" where
  "to_text v = (case v of None \<Rightarrow> Inr ''undefined'' | Some j \<Rightarrow> js_toString j)"

section \<open>The browser's localStorage\<close>

text \<open>
  A stored item is a string. An item that is read back with \<^verbatim>\<open>JSON.parse\<close> is
  modelled by what parsing it gives: \<open>Encoded v\<close> is a text that parses to \<open>v\<close> (as
  \<^verbatim>\<open>JSON.stringify(v)\<close> is), \<open>Malformed\<close> a non-empty text that \<^verbatim>\<open>JSON.parse\<close> rejects,
  \<open>EmptyText\<close> the empty string, which is falsy. The token is read as it is.
  The four keys are the ones the admin front end uses.
\<close>

datatype entry = EmptyText | Malformed | Encoded json

record storage =
  token :: "string option"
  user :: "entry option"
  isAuthenticated :: "string option"
  superAdminUser :: "entry option"

fun JSON_parse :: "entry \<Rightarrow> error + json" where
  "JSON_parse (Encoded v) = Inr v"
| "JSON_parse Malformed = Inl SyntaxError"
| "JSON_parse EmptyText = Inl SyntaxError"

text \<open>\<^verbatim>\<open>if (str)\<close> on the result of \<^verbatim>\<open>getItem\<close>: \<^verbatim>\<open>null\<close> and the empty string are falsy.\<close>

fun nonempty_item :: "entry option \<Rightarrow> bool" where
  "nonempty_item None = False"
| "nonempty_item (Some EmptyText) = False"
| "nonempty_item (Some e) = True"

section \<open>Role hierarchy and permission check (services/utils/helpers.js)\<close>

text \<open>
  The second module of the file, which the service modules import as
  \<^verbatim>\<open>utils/permissions.js\<close>. String literals of the source are the bytes of their UTF-8
  encoding.
\<close>

definition msg_not_logged_in :: string where
  "msg_not_logged_in =
   [CHR 0xE6, CHR 0x9C, CHR 0xAA, CHR 0xE7, CHR 0x99, CHR 0xBB, CHR 0xE5, CHR 0x85,
    CHR 0xA5]"

definition msg_insufficient :: string where
  "msg_insufficient =
   [CHR 0xE6, CHR 0xAC, CHR 0x8A, CHR 0xE9, CHR 0x99, CHR 0x90, CHR 0xE4, CHR 0xB8,
    CHR 0x8D, CHR 0xE8, CHR 0xB6, CHR 0xB3, CHR 0xEF, CHR 0xBC, CHR 0x8C, CHR 0xE6,
    CHR 0xAD, CHR 0xA4, CHR 0xE6, CHR 0x93, CHR 0x8D, CHR 0xE4, CHR 0xBD, CHR 0x9C,
    CHR 0xE9, CHR 0x9C, CHR 0x80, CHR 0xE8, CHR 0xA6, CHR 0x81, CHR 0xE6, CHR 0x9B,
    CHR 0xB4, CHR 0xE9, CHR 0xAB, CHR 0x98, CHR 0xE6, CHR 0xAC, CHR 0x8A, CHR 0xE9,
    CHR 0x99, CHR 0x90]"

definition msg_verify_failed :: string where
  "msg_verify_failed =
   [CHR 0xE6, CHR 0xAC, CHR 0x8A, CHR 0xE9, CHR 0x99, CHR 0x90, CHR 0xE9, CHR 0xA9,
    CHR 0x97, CHR 0xE8, CHR 0xAD, CHR 0x89, CHR 0xE5, CHR 0xA4, CHR 0xB1, CHR 0xE6,
    CHR 0x95, CHR 0x97]"

datatype role = SUPER_ADMIN | ADMIN

text \<open>The constants \<^verbatim>\<open>ROLES.SUPER_ADMIN\<close> and \<^verbatim>\<open>ROLES.ADMIN\<close> are these strings.\<close>

fun ROLES :: "role \<Rightarrow> string" where
  "ROLES SUPER_ADMIN = ''SUPER_ADMIN''"
| "ROLES ADMIN = ''ADMIN''"

text \<open>
  \<^verbatim>\<open>roleHierarchy[key]\<close> on the object literal \<^verbatim>\<open>{ SUPER_ADMIN: 2, ADMIN: 1 }\<close>: an own
  level, a member inherited from \<^verbatim>\<open>Object.prototype\<close> (a function or an object, which
  is truthy and compares as NaN with a number), or \<^verbatim>\<open>undefined\<close>.
\<close>

datatype slot = Level nat | Inherited | Undefined

definition object_prototype_keys :: "string list" where
  "object_prototype_keys =
     [''constructor'', ''hasOwnProperty'', ''isPrototypeOf'', ''propertyIsEnumerable'',
      ''toLocaleString'', ''toString'', ''valueOf'', ''__proto__'', ''__defineGetter__'',
      ''__defineSetter__'', ''__lookupGetter__'', ''__lookupSetter__'']"

definition roleHierarchy :: "string \<Rightarrow> slot" where
  "roleHierarchy key =
     (if key = ''SUPER_ADMIN'' then Level 2
      else if key = ''ADMIN'' then Level 1
      else if key \<in> set object_prototype_keys then Inherited
      else Undefined)"

text \<open>\<^verbatim>\<open>x || 0\<close>.\<close>

fun or_zero :: "slot \<Rightarrow> slot" where
  "or_zero (Level n) = Level n"
| "or_zero Inherited = Inherited"
| "or_zero Undefined = Level 0"

text \<open>
  \<^verbatim>\<open>userLevel >= requiredLevel\<close>. The required role is a member of \<^verbatim>\<open>ROLES\<close>, so
  the right-hand side is a number; an inherited member on the left converts to NaN and
  the comparison is false.
\<close>

fun level_ge :: "slot \<Rightarrow> slot \<Rightarrow> bool" where
  "level_ge (Level a) (Level b) = (b \<le> a)"
| "level_ge a b = False"

text \<open>
  The objects the service functions return all carry an optional \<^verbatim>\<open>message\<close>; it is
  a string literal of the source or whatever the backend sent as \<^verbatim>\<open>detail\<close> or
  \<^verbatim>\<open>message\<close>.
\<close>

record reply =
  message :: "json option"

record permission = reply +
  hasPermission :: bool

definition denied :: "string \<Rightarrow> permission" where
  "denied m = \<lparr>message = Some (JStr m), hasPermission = False\<rparr>"

definition granted :: permission where
  "granted = \<lparr>message = None, hasPermission = True\<rparr>"

text \<open>The body of the \<^verbatim>\<open>try\<close> block after the stored text was found non-empty.\<close>

definition checkPermission_body :: "role \<Rightarrow> entry \<Rightarrow> error + permission" where
  "checkPermission_body requiredRole userStr =
     (case JSON_parse userStr of
        Inl e \<Rightarrow> Inl e
      | Inr u \<Rightarrow>
          (case get_prop u ''role'' of
             Inl e \<Rightarrow> Inl e
           | Inr userRole \<Rightarrow>
               (case to_text userRole of
                  Inl e \<Rightarrow> Inl e
                | Inr key \<Rightarrow>
                    (let userLevel = or_zero (roleHierarchy key);
                         requiredLevel = or_zero (roleHierarchy (ROLES requiredRole))
                     in if level_ge userLevel requiredLevel then Inr granted
                        else Inr (denied msg_insufficient)))))"

definition checkPermission :: "role \<Rightarrow> storage \<Rightarrow> permission" where
  "checkPermission requiredRole s =
     (if \<not> nonempty_item (user s) then denied msg_not_logged_in
      else case checkPermission_body requiredRole (the (user s)) of
             Inl e \<Rightarrow> denied msg_verify_failed
           | Inr p \<Rightarrow> p)"

section \<open>Authorization headers (getAuthHeader of the service modules)\<close>

text \<open>
  Every service module (files, categories, users, departments, settings, activities,
  upload, query users) has the same private \<^verbatim>\<open>getAuthHeader\<close>. It has no \<^verbatim>\<open>try\<close> of its
  own: a stored user text that does not parse, or that parses to \<^verbatim>\<open>null\<close>, makes it
  throw into its caller. A header object is the list of its name and value pairs.
\<close>

type_synonym header_list = "(string \<times> string) list"

definition bearer :: "storage \<Rightarrow> string" where
  "bearer s = ''Bearer '' @ (case token s of None \<Rightarrow> ''null'' | Some t \<Rightarrow> t)"

definition getAuthHeader :: "storage \<Rightarrow> error + header_list" where
  "getAuthHeader s =
     (let headers = [(''Authorization'', bearer s)] in
      if nonempty_item (user s) then
        (case JSON_parse (the (user s)) of
           Inl e \<Rightarrow> Inl e
         | Inr u \<Rightarrow>
             (case get_prop u ''isSuperAdminProxy'' of
                Inl e \<Rightarrow> Inl e
              | Inr proxy \<Rightarrow>
                  if truthy proxy then
                    (case get_prop u ''departmentId'' of
                       Inl e \<Rightarrow> Inl e
                     | Inr departmentId \<Rightarrow>
                         if truthy departmentId then
                           (case js_toString (the departmentId) of
                              Inl e \<Rightarrow> Inl e
                            | Inr d \<Rightarrow> Inr (headers @ [(''X-Proxy-Department-Id'', d)]))
                         else Inr headers)
                  else Inr headers))
      else Inr headers)"

section \<open>Entering and leaving a department as system administrator\<close>

text \<open>
  \<^verbatim>\<open>enterDepartmentDashboard\<close> exists twice: in the component
  \<^verbatim>\<open>superadmin/DepartmentManagement.jsx\<close>, which reads the current user with
  \<^verbatim>\<open>JSON.parse(localStorage.getItem('user') || '{}')\<close>, and in the super-admin page,
  which reads it with its \<^verbatim>\<open>getUserInfo\<close> (a default user when nothing parseable is
  stored). The rest of the two bodies is the same and is \<open>enter_as\<close> below. The
  functions are event handlers: an exception ends the handler, and what was written
  to the storage before it stays written. Navigation and the \<^verbatim>\<open>authChange\<close> event are
  not modelled. The result is the exception, if any, and the storage.
\<close>

definition proxy_name_suffix :: string where
  "proxy_name_suffix =
   [CHR 0x20, CHR 0xE7, CHR 0xAE, CHR 0xA1, CHR 0xE7, CHR 0x90, CHR 0x86, CHR 0xE5,
    CHR 0x93, CHR 0xA1, CHR 0x20, CHR 0x28, CHR 0xE7, CHR 0xB3, CHR 0xBB, CHR 0xE7,
    CHR 0xB5, CHR 0xB1, CHR 0xE7, CHR 0xAE, CHR 0xA1, CHR 0xE7, CHR 0x90, CHR 0x86,
    CHR 0xE5, CHR 0x93, CHR 0xA1, CHR 0xE4, CHR 0xBB, CHR 0xA3, CHR 0xE7, CHR 0x90,
    CHR 0x86, CHR 0x29]"

definition default_super_admin_name :: string where
  "default_super_admin_name =
   [CHR 0xE7, CHR 0xB3, CHR 0xBB, CHR 0xE7, CHR 0xB5, CHR 0xB1, CHR 0xE7, CHR 0xAE,
    CHR 0xA1, CHR 0xE7, CHR 0x90, CHR 0x86, CHR 0xE5, CHR 0x93, CHR 0xA1]"

definition current_user_component :: "storage \<Rightarrow> error + json" where
  "current_user_component s =
     (if nonempty_item (user s) then JSON_parse (the (user s)) else Inr (JObj []))"

definition default_user_info :: json where
  "default_user_info =
     JObj [(''name'', JStr default_super_admin_name), (''username'', JStr ''SuperAdmin''),
           (''role'', JStr ''SUPER_ADMIN'')]"

definition getUserInfo :: "storage \<Rightarrow> json" where
  "getUserInfo s =
     (if nonempty_item (user s) then
        (case JSON_parse (the (user s)) of Inl e \<Rightarrow> default_user_info | Inr u \<Rightarrow> u)
      else default_user_info)"

text \<open>The saved identity: \<^verbatim>\<open>{ id, name, username, role: 'SUPER_ADMIN' }\<close>.\<close>

definition saved_super_admin :: "json \<Rightarrow> error + json" where
  "saved_super_admin currentUser =
     (case get_prop currentUser ''id'' of
        Inl e \<Rightarrow> Inl e
      | Inr i \<Rightarrow>
          (case get_prop currentUser ''name'' of
             Inl e \<Rightarrow> Inl e
           | Inr n \<Rightarrow>
               (case get_prop currentUser ''username'' of
                  Inl e \<Rightarrow> Inl e
                | Inr un \<Rightarrow>
                    Inr (JObj (object_literal
                      [(''id'', i), (''name'', n), (''username'', un),
                       (''role'', Some (JStr ''SUPER_ADMIN''))])))))"

text \<open>The acting identity \<^verbatim>\<open>tempUser\<close>.\<close>

definition temp_user :: "json \<Rightarrow> json \<Rightarrow> error + json" where
  "temp_user currentUser dept =
     (case get_prop currentUser ''id'' of
        Inl e \<Rightarrow> Inl e
      | Inr i \<Rightarrow>
          (case get_prop currentUser ''username'' of
             Inl e \<Rightarrow> Inl e
           | Inr un \<Rightarrow>
               (case get_prop dept ''name'' of
                  Inl e \<Rightarrow> Inl e
                | Inr dn \<Rightarrow>
                    (case to_text dn of
                       Inl e \<Rightarrow> Inl e
                     | Inr label \<Rightarrow>
                         (case get_prop dept ''id'' of
                            Inl e \<Rightarrow> Inl e
                          | Inr di \<Rightarrow>
                              Inr (JObj (object_literal
                                [(''id'', i), (''username'', un),
                                 (''name'', Some (JStr (label @ proxy_name_suffix))),
                                 (''role'', Some (JStr ''ADMIN'')),
                                 (''departmentId'', di), (''departmentName'', dn),
                                 (''isSuperAdminProxy'', Some (JBool True)),
                                 (''_originalRole'', Some (JStr ''SUPER_ADMIN''))])))))))"

definition enter_as :: "json \<Rightarrow> json \<Rightarrow> storage \<Rightarrow> error option \<times> storage" where
  "enter_as currentUser dept s =
     (let existingSuperAdminUser = superAdminUser s;
          saved =
            (if \<not> nonempty_item existingSuperAdminUser then
               (case saved_super_admin currentUser of
                  Inl e \<Rightarrow> Inl e
                | Inr su \<Rightarrow> Inr (s\<lparr>superAdminUser := Some (Encoded su)\<rparr>))
             else Inr s)
      in case saved of
           Inl e \<Rightarrow> (Some e, s)
         | Inr s1 \<Rightarrow>
             (case temp_user currentUser dept of
                Inl e \<Rightarrow> (Some e, s1)
              | Inr tu \<Rightarrow> (None, s1\<lparr>user := Some (Encoded tu)\<rparr>)))"

definition enterDepartmentDashboard :: "json \<Rightarrow> storage \<Rightarrow> error option \<times> storage" where
  "enterDepartmentDashboard dept s =
     (case current_user_component s of
        Inl e \<Rightarrow> (Some e, s)
      | Inr currentUser \<Rightarrow> enter_as currentUser dept s)"

definition enterDepartmentDashboard_page :: "json \<Rightarrow> storage \<Rightarrow> error option \<times> storage" where
  "enterDepartmentDashboard_page dept s = enter_as (getUserInfo s) dept s"





section \<open>Requests, responses and the browser state\<close>

text \<open>
  The options object given to \<^verbatim>\<open>fetch\<close>: a key that is absent is \<open>None\<close>. A request
  body is a JSON text (modelled by the value it encodes) or a \<^verbatim>\<open>FormData\<close>.
\<close>

record candidate_file =
  name :: string
  byte_size :: nat
  mime_type :: string

datatype form_value = FileBlob candidate_file | FieldText string | FieldJson json

datatype body_content = JsonBody json | FormBody "(string \<times> form_value) list"

record options =
  http_method :: "string option"
  headers :: "header_list option"
  body :: "body_content option"
  cache :: "string option"

type_synonym request = "string \<times> options"

text \<open>
  A response: its status and what \<^verbatim>\<open>response.json()\<close> resolves to (\<open>None\<close> when the
  body is not JSON and the promise rejects). \<^verbatim>\<open>fetch\<close> itself rejects on a network
  failure.
\<close>

record response =
  status :: nat
  payload :: "json option"

definition ok :: "response \<Rightarrow> bool" where
  "ok r = (200 \<le> status r \<and> status r \<le> 299)"

datatype fetch_result = Rejected | Responded response

text \<open>
  The backend is the environment: it answers a request knowing the requests that came
  before it, so its answers may depend on what earlier requests changed.
\<close>

type_synonym server = "request list \<Rightarrow> request \<Rightarrow> fetch_result"

text \<open>
  The state a service function runs in: the localStorage, the requests issued so far
  (oldest first) and the application path \<^verbatim>\<open>window.location.href\<close> was last sent to.
\<close>

record world =
  localStorage :: storage
  requests :: "request list"
  redirected :: "string option"

text \<open>\<^verbatim>\<open>obj[k] = v\<close> and the spread \<^verbatim>\<open>{ ...a, ...b }\<close> on header objects.\<close>

fun assign :: "header_list \<Rightarrow> string \<Rightarrow> string \<Rightarrow> header_list" where
  "assign [] k v = [(k, v)]"
| "assign ((k', v') # kvs) k v = (if k' = k then (k, v) # kvs else (k', v') # assign kvs k v)"

definition spread :: "header_list \<Rightarrow> header_list \<Rightarrow> header_list" where
  "spread a b = foldl (\<lambda>acc (k, v). assign acc k v) a b"

section \<open>The fetch wrapper (services/apiClient.js)\<close>

definition msg_login_expired :: string where
  "msg_login_expired =
   [CHR 0xE7, CHR 0x99, CHR 0xBB, CHR 0xE5, CHR 0x85, CHR 0xA5, CHR 0xE5, CHR 0xB7,
    CHR 0xB2, CHR 0xE9, CHR 0x81, CHR 0x8E, CHR 0xE6, CHR 0x9C, CHR 0x9F, CHR 0xEF,
    CHR 0xBC, CHR 0x8C, CHR 0xE8, CHR 0xAB, CHR 0x8B, CHR 0xE9, CHR 0x87, CHR 0x8D,
    CHR 0xE6, CHR 0x96, CHR 0xB0, CHR 0xE7, CHR 0x99, CHR 0xBB, CHR 0xE5, CHR 0x85,
    CHR 0xA5]"


definition handleTokenExpired :: "world \<Rightarrow> world" where
  "handleTokenExpired w =
     w\<lparr>localStorage :=
          (localStorage w)\<lparr>token := None, user := None, isAuthenticated := None,
                            superAdminUser := None\<rparr>,
       redirected := Some ''/''\<rparr>"

definition final_options :: "options \<Rightarrow> options" where
  "final_options opts =
     opts\<lparr>cache := (case cache opts of None \<Rightarrow> Some ''no-store'' | Some c \<Rightarrow> Some c),
          headers := Some (spread [(''Pragma'', ''no-cache''), (''Cache-Control'', ''no-cache'')]
                             (case headers opts of None \<Rightarrow> [] | Some h \<Rightarrow> h))\<rparr>"

text \<open>
  \<^verbatim>\<open>apiFetch\<close>: the error thrown on status 401 is \<open>LoginExpired\<close> (its message is
  \<open>msg_login_expired\<close>); a rejected \<^verbatim>\<open>fetch\<close> is rethrown.
\<close>

definition apiFetch :: "server \<Rightarrow> string \<Rightarrow> options \<Rightarrow> world \<Rightarrow> (error + response) \<times> world" where
  "apiFetch srv url opts w =
     (let finalOptions = final_options opts;
          w1 = w\<lparr>requests := requests w @ [(url, finalOptions)]\<rparr>
      in case srv (requests w) (url, finalOptions) of
           Rejected \<Rightarrow> (Inl FetchFailed, w1)
         | Responded r \<Rightarrow>
             if status r = 401 then (Inl LoginExpired, handleTokenExpired w1)
             else (Inr r, w1))"

section \<open>Service functions\<close>

text \<open>
  A service function returns \<^verbatim>\<open>{ success, data, message }\<close>. Its body runs in a
  \<^verbatim>\<open>try\<close>; the \<^verbatim>\<open>catch\<close> turns every exception into a failure with a fixed message.
  \<open>API_BASE_URL\<close> is the default of \<^verbatim>\<open>config.js\<close>.
\<close>

record 'a result = reply +
  success :: bool
  data :: "'a option"

definition failure :: "json \<Rightarrow> 'a result" where
  "failure m = \<lparr>message = Some m, success = False, data = None\<rparr>"

definition API_BASE_URL :: string where
  "API_BASE_URL = ''/api''"

definition response_json :: "response \<Rightarrow> error + json" where
  "response_json r = (case payload r of None \<Rightarrow> Inl SyntaxError | Some j \<Rightarrow> Inr j)"

text \<open>\<^verbatim>\<open>v || 'literal'\<close>.\<close>

definition or_default :: "json option \<Rightarrow> string \<Rightarrow> json" where
  "or_default v d = (if truthy v then the v else JStr d)"

text \<open>The branch for a response that is not ok: \<^verbatim>\<open>error.detail || 'literal'\<close>.\<close>

definition error_reply :: "response \<Rightarrow> string \<Rightarrow> error + 'a result" where
  "error_reply r d =
     (case response_json r of
        Inl e \<Rightarrow> Inl e
      | Inr err \<Rightarrow>
          (case get_prop err ''detail'' of
             Inl e \<Rightarrow> Inl e
           | Inr detail \<Rightarrow> Inr (failure (or_default detail d))))"

text \<open>The \<^verbatim>\<open>catch\<close> block.\<close>

definition caught :: "string \<Rightarrow> (error + 'a result) \<times> world \<Rightarrow> 'a result \<times> world" where
  "caught d r = (case fst r of Inl e \<Rightarrow> (failure (JStr d), snd r) | Inr x \<Rightarrow> (x, snd r))"

subsection \<open>Batch upload (services/api/upload.js)\<close>

definition msg_check_duplicates_failed :: string where
  "msg_check_duplicates_failed =
   [CHR 0xE6, CHR 0xAA, CHR 0xA2, CHR 0xE6, CHR 0x9F, CHR 0xA5, CHR 0xE9, CHR 0x87,
    CHR 0x8D, CHR 0xE8, CHR 0xA4, CHR 0x87, CHR 0xE6, CHR 0xAA, CHR 0x94, CHR 0xE6,
    CHR 0xA1, CHR 0x88, CHR 0xE5, CHR 0xA4, CHR 0xB1, CHR 0xE6, CHR 0x95, CHR 0x97]"

definition msg_check_duplicates_network :: string where
  "msg_check_duplicates_network =
   [CHR 0xE6, CHR 0xAA, CHR 0xA2, CHR 0xE6, CHR 0x9F, CHR 0xA5, CHR 0xE9, CHR 0x87,
    CHR 0x8D, CHR 0xE8, CHR 0xA4, CHR 0x87, CHR 0xE6, CHR 0xAA, CHR 0x94, CHR 0xE6,
    CHR 0xA1, CHR 0x88, CHR 0xE5, CHR 0xA4, CHR 0xB1, CHR 0xE6, CHR 0x95, CHR 0x97,
    CHR 0xEF, CHR 0xBC, CHR 0x8C, CHR 0xE8, CHR 0xAB, CHR 0x8B, CHR 0xE6, CHR 0xAA,
    CHR 0xA2, CHR 0xE6, CHR 0x9F, CHR 0xA5, CHR 0xE7, CHR 0xB6, CHR 0xB2, CHR 0xE8,
    CHR 0xB7, CHR 0xAF, CHR 0xE9, CHR 0x80, CHR 0xA3, CHR 0xE7, CHR 0xB7, CHR 0x9A]"

definition msg_upload_task_created :: string where
  "msg_upload_task_created =
   [CHR 0xE4, CHR 0xB8, CHR 0x8A, CHR 0xE5, CHR 0x82, CHR 0xB3, CHR 0xE4, CHR 0xBB,
    CHR 0xBB, CHR 0xE5, CHR 0x8B, CHR 0x99, CHR 0xE5, CHR 0xB7, CHR 0xB2, CHR 0xE5,
    CHR 0xBB, CHR 0xBA, CHR 0xE7, CHR 0xAB, CHR 0x8B, CHR 0xEF, CHR 0xBC, CHR 0x8C,
    CHR 0xE9, CHR 0x96, CHR 0x8B, CHR 0xE5, CHR 0xA7, CHR 0x8B, CHR 0xE8, CHR 0x99,
    CHR 0x95, CHR 0xE7, CHR 0x90, CHR 0x86, CHR 0xE6, CHR 0xAA, CHR 0x94, CHR 0xE6,
    CHR 0xA1, CHR 0x88]"

definition msg_upload_task_failed :: string where
  "msg_upload_task_failed =
   [CHR 0xE5, CHR 0xBB, CHR 0xBA, CHR 0xE7, CHR 0xAB, CHR 0x8B, CHR 0xE4, CHR 0xB8,
    CHR 0x8A, CHR 0xE5, CHR 0x82, CHR 0xB3, CHR 0xE4, CHR 0xBB, CHR 0xBB, CHR 0xE5,
    CHR 0x8B, CHR 0x99, CHR 0xE5, CHR 0xA4, CHR 0xB1, CHR 0xE6, CHR 0x95, CHR 0x97]"

definition msg_upload_task_network :: string where
  "msg_upload_task_network =
   [CHR 0xE5, CHR 0xBB, CHR 0xBA, CHR 0xE7, CHR 0xAB, CHR 0x8B, CHR 0xE4, CHR 0xB8,
    CHR 0x8A, CHR 0xE5, CHR 0x82, CHR 0xB3, CHR 0xE4, CHR 0xBB, CHR 0xBB, CHR 0xE5,
    CHR 0x8B, CHR 0x99, CHR 0xE5, CHR 0xA4, CHR 0xB1, CHR 0xE6, CHR 0x95, CHR 0x97,
    CHR 0xEF, CHR 0xBC, CHR 0x8C, CHR 0xE8, CHR 0xAB, CHR 0x8B, CHR 0xE6, CHR 0xAA,
    CHR 0xA2, CHR 0xE6, CHR 0x9F, CHR 0xA5, CHR 0xE7, CHR 0xB6, CHR 0xB2, CHR 0xE8,
    CHR 0xB7, CHR 0xAF, CHR 0xE9, CHR 0x80, CHR 0xA3, CHR 0xE7, CHR 0xB7, CHR 0x9A]"


definition check_duplicates_request :: "header_list \<Rightarrow> candidate_file list \<Rightarrow> request" where
  "check_duplicates_request h fileList =
     (API_BASE_URL @ ''/upload/check-duplicates'',
      \<lparr>http_method = Some ''POST'',
       headers = Some (assign h ''Content-Type'' ''application/json''),
       body = Some (JsonBody (JObj [(''filenames'', JArr (map (\<lambda>f. JStr (name f)) fileList))])),
       cache = None\<rparr>)"

definition checkDuplicates_try ::
  "server \<Rightarrow> candidate_file list \<Rightarrow> world \<Rightarrow> (error + json result) \<times> world" where
  "checkDuplicates_try srv fileList w =
     (case getAuthHeader (localStorage w) of
        Inl e \<Rightarrow> (Inl e, w)
      | Inr h \<Rightarrow>
          (case apiFetch srv (fst (check_duplicates_request h fileList))
                  (snd (check_duplicates_request h fileList)) w of
             (Inl e, w1) \<Rightarrow> (Inl e, w1)
           | (Inr response, w1) \<Rightarrow>
               if ok response then
                 (case response_json response of
                    Inl e \<Rightarrow> (Inl e, w1)
                  | Inr d \<Rightarrow>
                      (case get_prop d ''results'' of
                         Inl e \<Rightarrow> (Inl e, w1)
                       | Inr results \<Rightarrow>
                           (Inr \<lparr>message = None, success = True,
                                 data = Some (if truthy results then the results else JArr [])\<rparr>,
                            w1)))
               else (error_reply response msg_check_duplicates_failed, w1)))"

definition checkDuplicates :: "server \<Rightarrow> candidate_file list \<Rightarrow> world \<Rightarrow> json result \<times> world" where
  "checkDuplicates srv fileList w =
     caught msg_check_duplicates_network (checkDuplicates_try srv fileList w)"

text \<open>
  \<^verbatim>\<open>uploadData\<close>: the files, and the optional \<^verbatim>\<open>categories\<close> and \<^verbatim>\<open>removeFileIds\<close>, which
  default to \<^verbatim>\<open>{}\<close> and \<^verbatim>\<open>[]\<close> and are sent as JSON text.
\<close>

record upload_data =
  files :: "candidate_file list"
  categories :: "json option"
  removeFileIds :: "json option"

record upload_ticket = reply +
  taskId :: "json option"

definition batch_upload_request :: "header_list \<Rightarrow> upload_data \<Rightarrow> request" where
  "batch_upload_request h uploadData =
     (API_BASE_URL @ ''/upload/batch'',
      \<lparr>http_method = Some ''POST'',
       headers = Some h,
       body = Some (FormBody
         (map (\<lambda>f. (''files'', FileBlob f)) (files uploadData) @
          [(''categories'',
              FieldJson (if truthy (categories uploadData) then the (categories uploadData)
                         else JObj [])),
           (''removeFileIds'',
              FieldJson (if truthy (removeFileIds uploadData) then the (removeFileIds uploadData)
                         else JArr [])),
           (''startProcessing'', FieldText ''true'')])),
       cache = None\<rparr>)"

definition batchUpload_try ::
  "server \<Rightarrow> upload_data \<Rightarrow> world \<Rightarrow> (error + upload_ticket result) \<times> world" where
  "batchUpload_try srv uploadData w =
     (let permission = checkPermission ADMIN (localStorage w) in
      if \<not> hasPermission permission then
        (Inr \<lparr>message = message permission, success = False, data = None\<rparr>, w)
      else
        (case getAuthHeader (localStorage w) of
           Inl e \<Rightarrow> (Inl e, w)
         | Inr h \<Rightarrow>
             (case apiFetch srv (fst (batch_upload_request h uploadData))
                     (snd (batch_upload_request h uploadData)) w of
                (Inl e, w1) \<Rightarrow> (Inl e, w1)
              | (Inr response, w1) \<Rightarrow>
                  if ok response then
                    (case response_json response of
                       Inl e \<Rightarrow> (Inl e, w1)
                     | Inr d \<Rightarrow>
                         (case get_prop d ''taskId'' of
                            Inl e \<Rightarrow> (Inl e, w1)
                          | Inr tid \<Rightarrow>
                              (case get_prop d ''message'' of
                                 Inl e \<Rightarrow> (Inl e, w1)
                               | Inr m \<Rightarrow>
                                   (Inr \<lparr>message = None, success = True,
                                         data = Some
                                           \<lparr>message = Some (or_default m msg_upload_task_created),
                                            taskId = tid\<rparr>\<rparr>,
                                    w1))))
                  else (error_reply response msg_upload_task_failed, w1))))"

definition batchUpload :: "server \<Rightarrow> upload_data \<Rightarrow> world \<Rightarrow> upload_ticket result \<times> world" where
  "batchUpload srv uploadData w =
     caught msg_upload_task_network (batchUpload_try srv uploadData w)"

subsection \<open>Users (services/api/users.js)\<close>

definition msg_get_users_failed :: string where
  "msg_get_users_failed =
   [CHR 0xE7, CHR 0x8D, CHR 0xB2, CHR 0xE5, CHR 0x8F, CHR 0x96, CHR 0xE4, CHR 0xBD,
    CHR 0xBF, CHR 0xE7, CHR 0x94, CHR 0xA8, CHR 0xE8, CHR 0x80, CHR 0x85, CHR 0xE5,
    CHR 0x88, CHR 0x97, CHR 0xE8, CHR 0xA1, CHR 0xA8, CHR 0xE5, CHR 0xA4, CHR 0xB1,
    CHR 0xE6, CHR 0x95, CHR 0x97]"

definition msg_get_users_network :: string where
  "msg_get_users_network =
   [CHR 0xE7, CHR 0x8D, CHR 0xB2, CHR 0xE5, CHR 0x8F, CHR 0x96, CHR 0xE4, CHR 0xBD,
    CHR 0xBF, CHR 0xE7, CHR 0x94, CHR 0xA8, CHR 0xE8, CHR 0x80, CHR 0x85, CHR 0xE5,
    CHR 0x88, CHR 0x97, CHR 0xE8, CHR 0xA1, CHR 0xA8, CHR 0xE5, CHR 0xA4, CHR 0xB1,
    CHR 0xE6, CHR 0x95, CHR 0x97, CHR 0xEF, CHR 0xBC, CHR 0x8C, CHR 0xE8, CHR 0xAB,
    CHR 0x8B, CHR 0xE6, CHR 0xAA, CHR 0xA2, CHR 0xE6, CHR 0x9F, CHR 0xA5, CHR 0xE7,
    CHR 0xB6, CHR 0xB2, CHR 0xE8, CHR 0xB7, CHR 0xAF, CHR 0xE9, CHR 0x80, CHR 0xA3,
    CHR 0xE7, CHR 0xB7, CHR 0x9A]"

definition msg_user_deleted :: string where
  "msg_user_deleted =
   [CHR 0xE4, CHR 0xBD, CHR 0xBF, CHR 0xE7, CHR 0x94, CHR 0xA8, CHR 0xE8, CHR 0x80,
    CHR 0x85, CHR 0xE5, CHR 0x88, CHR 0xAA, CHR 0xE9, CHR 0x99, CHR 0xA4, CHR 0xE6,
    CHR 0x88, CHR 0x90, CHR 0xE5, CHR 0x8A, CHR 0x9F]"

definition msg_delete_user_failed :: string where
  "msg_delete_user_failed =
   [CHR 0xE5, CHR 0x88, CHR 0xAA, CHR 0xE9, CHR 0x99, CHR 0xA4, CHR 0xE4, CHR 0xBD,
    CHR 0xBF, CHR 0xE7, CHR 0x94, CHR 0xA8, CHR 0xE8, CHR 0x80, CHR 0x85, CHR 0xE5,
    CHR 0xA4, CHR 0xB1, CHR 0xE6, CHR 0x95, CHR 0x97]"

definition msg_delete_user_network :: string where
  "msg_delete_user_network =
   [CHR 0xE5, CHR 0x88, CHR 0xAA, CHR 0xE9, CHR 0x99, CHR 0xA4, CHR 0xE4, CHR 0xBD,
    CHR 0xBF, CHR 0xE7, CHR 0x94, CHR 0xA8, CHR 0xE8, CHR 0x80, CHR 0x85, CHR 0xE5,
    CHR 0xA4, CHR 0xB1, CHR 0xE6, CHR 0x95, CHR 0x97, CHR 0xEF, CHR 0xBC, CHR 0x8C,
    CHR 0xE8, CHR 0xAB, CHR 0x8B, CHR 0xE6, CHR 0xAA, CHR 0xA2, CHR 0xE6, CHR 0x9F,
    CHR 0xA5, CHR 0xE7, CHR 0xB6, CHR 0xB2, CHR 0xE8, CHR 0xB7, CHR 0xAF, CHR 0xE9,
    CHR 0x80, CHR 0xA3, CHR 0xE7, CHR 0xB7, CHR 0x9A]"


text \<open>The object \<^verbatim>\<open>getUsersByDepartment\<close> maps a backend user to.\<close>

definition mapped_user :: "json \<Rightarrow> error + json" where
  "mapped_user u =
     (case get_prop u ''id'' of
        Inl e \<Rightarrow> Inl e
      | Inr i \<Rightarrow>
          (case (get_prop u ''full_name'', get_prop u ''username'', get_prop u ''email'',
                 get_prop u ''role'', get_prop u ''department_id'', get_prop u ''is_active'') of
             (Inr fn, Inr un, Inr em, Inr ro, Inr dp, Inr ac) \<Rightarrow>
               Inr (JObj (object_literal
                 [(''id'', i), (''name'', fn), (''username'', un), (''email'', em),
                  (''role'', ro), (''departmentId'', dp),
                  (''status'', Some (JStr (if truthy ac then ''active'' else ''inactive'')))]))
           | _ \<Rightarrow> Inl TypeError))"

text \<open>\<^verbatim>\<open>items.map(...)\<close>: the first element that throws ends the mapping.\<close>

fun map_users :: "json list \<Rightarrow> error + json list" where
  "map_users [] = Inr []"
| "map_users (u # us) =
     (case mapped_user u of
        Inl e \<Rightarrow> Inl e
      | Inr m \<Rightarrow> (case map_users us of Inl e \<Rightarrow> Inl e | Inr ms \<Rightarrow> Inr (m # ms)))"

text \<open>\<^verbatim>\<open>(data.items || [])\<close> as the receiver of \<^verbatim>\<open>.map\<close>: only an array has it.\<close>

definition items_or_empty :: "json option \<Rightarrow> error + json list" where
  "items_or_empty items =
     (if truthy items then (case the items of JArr xs \<Rightarrow> Inr xs | _ \<Rightarrow> Inl TypeError)
      else Inr [])"

definition users_request :: "header_list \<Rightarrow> string \<Rightarrow> request" where
  "users_request h departmentId =
     (API_BASE_URL @ ''/users/?department_id='' @ departmentId,
      \<lparr>http_method = Some ''GET'', headers = Some h, body = None, cache = None\<rparr>)"

definition getUsersByDepartment_try ::
  "server \<Rightarrow> json option \<Rightarrow> world \<Rightarrow> (error + json list result) \<times> world" where
  "getUsersByDepartment_try srv departmentId w =
     (case to_text departmentId of
        Inl e \<Rightarrow> (Inl e, w)
      | Inr dep \<Rightarrow>
          (case getAuthHeader (localStorage w) of
             Inl e \<Rightarrow> (Inl e, w)
           | Inr h \<Rightarrow>
               (case apiFetch srv (fst (users_request h dep)) (snd (users_request h dep)) w of
                  (Inl e, w1) \<Rightarrow> (Inl e, w1)
                | (Inr response, w1) \<Rightarrow>
                    if ok response then
                      (case response_json response of
                         Inl e \<Rightarrow> (Inl e, w1)
                       | Inr d \<Rightarrow>
                           (case get_prop d ''items'' of
                              Inl e \<Rightarrow> (Inl e, w1)
                            | Inr items \<Rightarrow>
                                (case items_or_empty items of
                                   Inl e \<Rightarrow> (Inl e, w1)
                                 | Inr us \<Rightarrow>
                                     (case map_users us of
                                        Inl e \<Rightarrow> (Inl e, w1)
                                      | Inr mappedUsers \<Rightarrow>
                                          (Inr \<lparr>message = None, success = True,
                                                data = Some mappedUsers\<rparr>, w1)))))
                    else (error_reply response msg_get_users_failed, w1))))"

definition getUsersByDepartment ::
  "server \<Rightarrow> json option \<Rightarrow> world \<Rightarrow> json list result \<times> world" where
  "getUsersByDepartment srv departmentId w =
     caught msg_get_users_network (getUsersByDepartment_try srv departmentId w)"

definition delete_user_request :: "header_list \<Rightarrow> string \<Rightarrow> request" where
  "delete_user_request h userId =
     (API_BASE_URL @ ''/users/'' @ userId,
      \<lparr>http_method = Some ''DELETE'', headers = Some h, body = None, cache = None\<rparr>)"

definition deleteUser_try ::
  "server \<Rightarrow> json option \<Rightarrow> world \<Rightarrow> (error + unit result) \<times> world" where
  "deleteUser_try srv userId w =
     (let permission = checkPermission SUPER_ADMIN (localStorage w) in
      if \<not> hasPermission permission then
        (Inr \<lparr>message = message permission, success = False, data = None\<rparr>, w)
      else
        (case to_text userId of
           Inl e \<Rightarrow> (Inl e, w)
         | Inr uid \<Rightarrow>
             (case getAuthHeader (localStorage w) of
                Inl e \<Rightarrow> (Inl e, w)
              | Inr h \<Rightarrow>
                  (case apiFetch srv (fst (delete_user_request h uid))
                          (snd (delete_user_request h uid)) w of
                     (Inl e, w1) \<Rightarrow> (Inl e, w1)
                   | (Inr response, w1) \<Rightarrow>
                       if ok response then
                         (case response_json response of
                            Inl e \<Rightarrow> (Inl e, w1)
                          | Inr d \<Rightarrow>
                              (case get_prop d ''message'' of
                                 Inl e \<Rightarrow> (Inl e, w1)
                               | Inr m \<Rightarrow>
                                   (Inr \<lparr>message = Some (or_default m msg_user_deleted),
                                         success = True, data = None\<rparr>, w1)))
                       else (error_reply response msg_delete_user_failed, w1)))))"

definition deleteUser :: "server \<Rightarrow> json option \<Rightarrow> world \<Rightarrow> unit result \<times> world" where
  "deleteUser srv userId w = caught msg_delete_user_network (deleteUser_try srv userId w)"

subsection \<open>Departments (services/api/departments.js)\<close>

definition msg_department_deleted :: string where
  "msg_department_deleted =
   [CHR 0xE8, CHR 0x99, CHR 0x95, CHR 0xE5, CHR 0xAE, CHR 0xA4, CHR 0xE5, CHR 0x88,
    CHR 0xAA, CHR 0xE9, CHR 0x99, CHR 0xA4, CHR 0xE6, CHR 0x88, CHR 0x90, CHR 0xE5,
    CHR 0x8A, CHR 0x9F]"

definition msg_delete_department_failed :: string where
  "msg_delete_department_failed =
   [CHR 0xE5, CHR 0x88, CHR 0xAA, CHR 0xE9, CHR 0x99, CHR 0xA4, CHR 0xE8, CHR 0x99,
    CHR 0x95, CHR 0xE5, CHR 0xAE, CHR 0xA4, CHR 0xE5, CHR 0xA4, CHR 0xB1, CHR 0xE6,
    CHR 0x95, CHR 0x97]"

definition msg_delete_department_network :: string where
  "msg_delete_department_network =
   [CHR 0xE5, CHR 0x88, CHR 0xAA, CHR 0xE9, CHR 0x99, CHR 0xA4, CHR 0xE8, CHR 0x99,
    CHR 0x95, CHR 0xE5, CHR 0xAE, CHR 0xA4, CHR 0xE5, CHR 0xA4, CHR 0xB1, CHR 0xE6,
    CHR 0x95, CHR 0x97, CHR 0xEF, CHR 0xBC, CHR 0x8C, CHR 0xE8, CHR 0xAB, CHR 0x8B,
    CHR 0xE6, CHR 0xAA, CHR 0xA2, CHR 0xE6, CHR 0x9F, CHR 0xA5, CHR 0xE7, CHR 0xB6,
    CHR 0xB2, CHR 0xE8, CHR 0xB7, CHR 0xAF, CHR 0xE9, CHR 0x80, CHR 0xA3, CHR 0xE7,
    CHR 0xB7, CHR 0x9A]"

definition msg_cannot_delete_user_prefix :: string where
  "msg_cannot_delete_user_prefix =
   [CHR 0xE5, CHR 0x88, CHR 0xAA, CHR 0xE9, CHR 0x99, CHR 0xA4, CHR 0xE8, CHR 0x99,
    CHR 0x95, CHR 0xE5, CHR 0xAE, CHR 0xA4, CHR 0xE5, CHR 0xA4, CHR 0xB1, CHR 0xE6,
    CHR 0x95, CHR 0x97, CHR 0xEF, CHR 0xBC, CHR 0x9A, CHR 0xE7, CHR 0x84, CHR 0xA1,
    CHR 0xE6, CHR 0xB3, CHR 0x95, CHR 0xE5, CHR 0x88, CHR 0xAA, CHR 0xE9, CHR 0x99,
    CHR 0xA4, CHR 0xE4, CHR 0xBD, CHR 0xBF, CHR 0xE7, CHR 0x94, CHR 0xA8, CHR 0xE8,
    CHR 0x80, CHR 0x85, CHR 0xE3, CHR 0x80, CHR 0x8C]"

definition msg_cannot_delete_user_infix :: string where
  "msg_cannot_delete_user_infix =
   [CHR 0xE3, CHR 0x80, CHR 0x8D, CHR 0x20, CHR 0x2D, CHR 0x20]"


text \<open>
  The loop of \<^verbatim>\<open>deleteDepartment\<close> over the listed users. It returns \<open>Inr None\<close> when
  every user was deleted, \<open>Inr (Some r)\<close> when it returned the failure \<open>r\<close> from inside
  the loop, and \<open>Inl e\<close> when it threw. The log lines of the loop insert \<^verbatim>\<open>user.id\<close> and
  \<^verbatim>\<open>user.name\<close> into template literals, which converts them to strings.
\<close>

fun delete_each :: "server \<Rightarrow> json list \<Rightarrow> world \<Rightarrow> (error + unit result option) \<times> world" where
  "delete_each srv [] w = (Inr None, w)"
| "delete_each srv (u # us) w =
     (case (get_prop u ''id'', get_prop u ''name'') of
        (Inr uid, Inr uname) \<Rightarrow>
          (case (to_text uid, to_text uname) of
             (Inr idText, Inr nameText) \<Rightarrow>
               (let deleteResult = deleteUser srv uid w in
                if \<not> success (fst deleteResult) then
                  (case to_text (message (fst deleteResult)) of
                     Inl e \<Rightarrow> (Inl e, snd deleteResult)
                   | Inr m \<Rightarrow>
                       (Inr (Some (failure (JStr
                          (msg_cannot_delete_user_prefix @ nameText @
                           msg_cannot_delete_user_infix @ m)))),
                        snd deleteResult))
                else delete_each srv us (snd deleteResult))
           | _ \<Rightarrow> (Inl TypeError, w))
      | _ \<Rightarrow> (Inl TypeError, w))"

definition delete_department_request :: "header_list \<Rightarrow> string \<Rightarrow> request" where
  "delete_department_request h departmentId =
     (API_BASE_URL @ ''/departments/'' @ departmentId,
      \<lparr>http_method = Some ''DELETE'', headers = Some h, body = None, cache = None\<rparr>)"

text \<open>The last step of \<^verbatim>\<open>deleteDepartment\<close>: the DELETE request for the department.\<close>

definition delete_department_step ::
  "server \<Rightarrow> json option \<Rightarrow> world \<Rightarrow> (error + unit result) \<times> world" where
  "delete_department_step srv departmentId w =
     (case to_text departmentId of
        Inl e \<Rightarrow> (Inl e, w)
      | Inr dep \<Rightarrow>
          (case getAuthHeader (localStorage w) of
             Inl e \<Rightarrow> (Inl e, w)
           | Inr h \<Rightarrow>
               (case apiFetch srv (fst (delete_department_request h dep))
                       (snd (delete_department_request h dep)) w of
                  (Inl e, w1) \<Rightarrow> (Inl e, w1)
                | (Inr response, w1) \<Rightarrow>
                    if ok response then
                      (case response_json response of
                         Inl e \<Rightarrow> (Inl e, w1)
                       | Inr d \<Rightarrow>
                           (case get_prop d ''message'' of
                              Inl e \<Rightarrow> (Inl e, w1)
                            | Inr m \<Rightarrow>
                                (Inr \<lparr>message = Some (or_default m msg_department_deleted),
                                      success = True, data = None\<rparr>, w1)))
                    else (error_reply response msg_delete_department_failed, w1))))"

definition deleteDepartment_try ::
  "server \<Rightarrow> json option \<Rightarrow> world \<Rightarrow> (error + unit result) \<times> world" where
  "deleteDepartment_try srv departmentId w =
     (let permission = checkPermission SUPER_ADMIN (localStorage w) in
      if \<not> hasPermission permission then
        (Inr \<lparr>message = message permission, success = False, data = None\<rparr>, w)
      else
        (let usersResult = getUsersByDepartment srv departmentId w;
             w1 = snd usersResult
         in if success (fst usersResult) then
              (case data (fst usersResult) of
                 None \<Rightarrow> (Inl TypeError, w1)
               | Some users \<Rightarrow>
                   if 0 < length users then
                     (case delete_each srv users w1 of
                        (Inl e, w2) \<Rightarrow> (Inl e, w2)
                      | (Inr (Some r), w2) \<Rightarrow> (Inr r, w2)
                      | (Inr None, w2) \<Rightarrow> delete_department_step srv departmentId w2)
                   else delete_department_step srv departmentId w1)
            else delete_department_step srv departmentId w1))"

definition deleteDepartment :: "server \<Rightarrow> json option \<Rightarrow> world \<Rightarrow> unit result \<times> world" where
  "deleteDepartment srv departmentId w =
     caught msg_delete_department_network (deleteDepartment_try srv departmentId w)"

text \<open>The requests \<^verbatim>\<open>deleteUser\<close> and the last step of \<^verbatim>\<open>deleteDepartment\<close> send.\<close>

definition user_deletion :: "request \<Rightarrow> bool" where
  "user_deletion q =
     (\<exists>h uid. q = (fst (delete_user_request h uid),
                    final_options (snd (delete_user_request h uid))))"

definition department_deletion :: "request \<Rightarrow> bool" where
  "department_deletion q =
     (\<exists>h dep. q = (fst (delete_department_request h dep),
                    final_options (snd (delete_department_request h dep))))"

section \<open>The grant picker (components/QueryUserPermissions.jsx)\<close>

text \<open>
  The state of the component that matters to \<^verbatim>\<open>loadPermissions\<close> and
  \<^verbatim>\<open>loadAvailableFiles\<close>: the target user (the prop \<^verbatim>\<open>userId\<close>), the permission rows it
  last loaded, the department chosen in the filter above the permission list, the
  categories shown in the grant dialog and the grant form. Identifiers are numbers, as
  the module's documentation types them. A file is \<^verbatim>\<open>file.id\<close>, \<^verbatim>\<open>file.filename\<close>,
  \<^verbatim>\<open>file.file_size\<close>; a category is \<^verbatim>\<open>category_id\<close>, \<^verbatim>\<open>category_name\<close> and its \<^verbatim>\<open>files\<close>; a
  permission row is its \<^verbatim>\<open>id\<close>, its \<^verbatim>\<open>file_id\<close> and the department of the file.
\<close>

record file_item =
  item_id :: int
  filename :: string
  file_size :: nat

record category_group =
  category_id :: int
  category_name :: string
  category_files :: "file_item list"

record permission_item =
  permission_id :: int
  file_id :: int
  permission_department_id :: int

record grant_form =
  file_ids :: "int list"
  department_id :: "int option"

record picker =
  userId :: int
  permissions :: "permission_item list"
  selectedDepartment :: "int option"
  categoriesData :: "category_group list"
  expandedCategories :: "int set"
  grantForm :: grant_form




section \<open>The access control resolver of the backend\<close>

text \<open>
  The sources hold the two front ends only; the backend that answers \<^verbatim>\<open>canRead\<close> is
  not among them. The resolver below follows sections 3 and 4.3 of the specification.
\<close>

text \<open>
  Modelled from the spec: the resolver's state, which is missing from the sources. It
  is the \<^verbatim>\<open>is_public\<close> flag of every known file and the FilePermission rows, each a
  pair of a query user and a file.
\<close>

record access_state =
  public_flag :: "(int \<times> bool) list"
  permission_rows :: "(int \<times> int) list"

text \<open>
  Modelled from the spec: \<^verbatim>\<open>file.is_public\<close> of the missing backend; a file that is not
  known is not public.
\<close>

definition file_is_public :: "access_state \<Rightarrow> int \<Rightarrow> bool" where
  "file_is_public st f = (case map_of (public_flag st) f of None \<Rightarrow> False | Some p \<Rightarrow> p)"

text \<open>
  Modelled from the spec: \<^verbatim>\<open>canRead(query_user_id, file_id)\<close> of the missing backend,
  true iff \<^verbatim>\<open>file.is_public\<close> or a FilePermission row exists for the pair.
\<close>

definition canRead :: "access_state \<Rightarrow> int \<Rightarrow> int \<Rightarrow> bool" where
  "canRead st query_user f = (file_is_public st f \<or> (query_user, f) \<in> set (permission_rows st))"

text \<open>
  Modelled from the spec: the switch of a known file's \<^verbatim>\<open>is_public\<close> flag in the
  missing backend; grants are never deleted when a file becomes public, only suppressed
  in effect, so no row is touched.
\<close>

definition set_is_public :: "int \<Rightarrow> bool \<Rightarrow> access_state \<Rightarrow> access_state" where
  "set_is_public f b st =
     st\<lparr>public_flag := map (\<lambda>(i, p). if i = f then (i, b) else (i, p)) (public_flag st)\<rparr>"

text \<open>
  Modelled from the spec: \<^verbatim>\<open>grant(query_user_id, file_id)\<close> of the missing backend,
  a no-op for a public file and for a pair that already has a row.
\<close>

definition grant :: "int \<Rightarrow> int \<Rightarrow> access_state \<Rightarrow> access_state" where
  "grant query_user f st =
     (if file_is_public st f \<or> (query_user, f) \<in> set (permission_rows st) then st
      else st\<lparr>permission_rows := permission_rows st @ [(query_user, f)]\<rparr>)"

section \<open>Notions of the specification\<close>

text \<open>
  The role hierarchy as the specification words it: \<^verbatim>\<open>SUPER_ADMIN\<close> is level 2,
  \<^verbatim>\<open>ADMIN\<close> level 1, anything else level 0. The level of the stored user is the level
  of its \<^verbatim>\<open>role\<close>, read as the key it is looked up under; no stored user, a user text
  that does not parse and a role with no string form have level 0.
\<close>

definition hierarchy_level :: "string \<Rightarrow> nat" where
  "hierarchy_level r = (if r = ''SUPER_ADMIN'' then 2 else if r = ''ADMIN'' then 1 else 0)"

definition stored_role_level :: "storage \<Rightarrow> nat" where
  "stored_role_level s =
     (case user s of
        Some (Encoded u) \<Rightarrow>
          (case get_prop u ''role'' of
             Inr r \<Rightarrow> (case to_text r of Inr key \<Rightarrow> hierarchy_level key | Inl e \<Rightarrow> 0)
           | Inl e \<Rightarrow> 0)
      | _ \<Rightarrow> 0)"

text \<open>
  The impersonation-scope hint of a storage: the \<^verbatim>\<open>departmentId\<close> of the stored user
  when both its \<^verbatim>\<open>isSuperAdminProxy\<close> and its \<^verbatim>\<open>departmentId\<close> are truthy.
\<close>

definition proxy_hint :: "storage \<Rightarrow> json option" where
  "proxy_hint s =
     (case user s of
        Some (Encoded (JObj kvs)) \<Rightarrow>
          (if truthy (map_of kvs ''isSuperAdminProxy'') \<and> truthy (map_of kvs ''departmentId'')
           then map_of kvs ''departmentId'' else None)
      | _ \<Rightarrow> None)"

section \<open>Sample data\<close>

text \<open>Concrete users, departments and storages at which the theorems are instantiated.\<close>

definition root_user :: json where
  "root_user =
     JObj [(''id'', JNum ''1''), (''name'', JStr ''Root''), (''username'', JStr ''root''),
           (''role'', JStr ''SUPER_ADMIN'')]"




definition logged_in :: "json \<Rightarrow> storage" where
  "logged_in u =
     \<lparr>token = Some ''t'', user = Some (Encoded u), isAuthenticated = Some ''true'',
      superAdminUser = None\<rparr>"

definition fresh_world :: "storage \<Rightarrow> world" where
  "fresh_world s = \<lparr>localStorage = s, requests = [], redirected = None\<rparr>"

definition server_always :: "response \<Rightarrow> server" where
  "server_always r = (\<lambda>earlier req. Responded r)"

definition plain_get :: options where
  "plain_get = \<lparr>http_method = Some ''GET'', headers = None, body = None, cache = None\<rparr>"

definition admin_user :: json where
  "admin_user =
     JObj [(''id'', JNum ''3''), (''name'', JStr ''Dana''), (''username'', JStr ''dana''),
           (''role'', JStr ''ADMIN''), (''departmentId'', JNum ''7'')]"

definition guest_user :: json where
  "guest_user = JObj [(''id'', JNum ''4''), (''username'', JStr ''guest''), (''role'', JStr ''GUEST'')]"

definition two_files :: "candidate_file list" where
  "two_files =
     [\<lparr>name = ''policy.pdf'', byte_size = 10, mime_type = ''application/pdf''\<rparr>,
      \<lparr>name = ''notes.txt'', byte_size = 20, mime_type = ''text/plain''\<rparr>]"

text \<open>
  A backend that cannot list users (status 500 for every GET) and accepts every other
  request.
\<close>

definition server_listing_down :: server where
  "server_listing_down =
     (\<lambda>earlier req.
        if http_method (snd req) = Some ''GET''
        then Responded \<lparr>status = 500, payload = Some (JObj [(''detail'', JStr ''unavailable'')])\<rparr>
        else Responded \<lparr>status = 200, payload = Some (JObj [(''message'', JStr ''deleted'')])\<rparr>)"






definition sample_access :: access_state where
  "sample_access = \<lparr>public_flag = [(10, False), (11, True)], permission_rows = [(5, 10)]\<rparr>"


section \<open>Properties of the permission check\<close>

lemma level_ge_hierarchy:
  "level_ge (or_zero (roleHierarchy key)) (or_zero (roleHierarchy (ROLES r)))
     = (hierarchy_level (ROLES r) \<le> hierarchy_level key)"
  by (cases r) (auto simp: roleHierarchy_def hierarchy_level_def object_prototype_keys_def)

lemma checkPermission_level:
  "hasPermission (checkPermission r s) = (hierarchy_level (ROLES r) \<le> stored_role_level s)"
proof -
  have pos: "0 < hierarchy_level (ROLES r)"
    by (cases r) (simp_all add: hierarchy_level_def)
  show ?thesis
  proof (cases "user s")
    case None
    then show ?thesis using pos
      by (simp add: checkPermission_def stored_role_level_def denied_def)
  next
    case (Some e)
    then show ?thesis using pos
      by (cases e)
         (auto simp: checkPermission_def checkPermission_body_def stored_role_level_def
            denied_def granted_def Let_def level_ge_hierarchy
            split: sum.splits option.splits)
  qed
qed

lemma checkPermission_message:
  "(message (checkPermission r s) = None) = hasPermission (checkPermission r s)"
  by (auto simp: checkPermission_def checkPermission_body_def denied_def granted_def Let_def
      split: sum.splits)

text \<open>
  Claim C9. \<^verbatim>\<open>checkPermission\<close> is total and monotone in the role hierarchy: for both
  required roles it grants exactly when the level of the stored user's role
  (\<^verbatim>\<open>SUPER_ADMIN\<close> 2, \<^verbatim>\<open>ADMIN\<close> 1, anything else 0) is at least the required level. So a
  storage of higher level passes every check a lower one passes, a level-2 user passes
  whatever any user passes, a user of level 0 (missing, unparseable, unknown role) fails
  the \<^verbatim>\<open>ADMIN\<close> check with a message, a missing user is told it is not logged in, and
  a result carries a message exactly when permission is refused: no input makes the
  function throw.
\<close>

theorem checkPermission_hierarchy:
  "hasPermission (checkPermission r s) = (hierarchy_level (ROLES r) \<le> stored_role_level s)
   \<and> (stored_role_level s \<le> stored_role_level s' \<longrightarrow>
        hasPermission (checkPermission r s) \<longrightarrow> hasPermission (checkPermission r s'))
   \<and> (stored_role_level s' = 2 \<longrightarrow>
        hasPermission (checkPermission r s) \<longrightarrow> hasPermission (checkPermission r s'))
   \<and> (stored_role_level s = 0 \<longrightarrow>
        \<not> hasPermission (checkPermission ADMIN s) \<and> message (checkPermission ADMIN s) \<noteq> None)
   \<and> (user s = None \<longrightarrow> checkPermission r s = denied msg_not_logged_in)
   \<and> (message (checkPermission r s) = None) = hasPermission (checkPermission r s)"
proof -
  have le2: "hierarchy_level (ROLES r) \<le> 2"
    by (cases r) (simp_all add: hierarchy_level_def)
  have a: "\<not> hasPermission (checkPermission ADMIN s)" if "stored_role_level s = 0"
    using that by (simp add: checkPermission_level hierarchy_level_def)
  have b: "checkPermission r s = denied msg_not_logged_in" if "user s = None"
    using that by (simp add: checkPermission_def)
  show ?thesis
    using le2 a b checkPermission_message[of ADMIN s] checkPermission_message[of r s]
    by (auto simp: checkPermission_level)
qed

theorem checkPermission_hierarchy_witness:
  "hasPermission (checkPermission ADMIN
      \<lparr>token = Some ''t'', user = Some (Encoded (JObj [(''role'', JStr ''ADMIN'')])),
       isAuthenticated = Some ''true'', superAdminUser = None\<rparr>)
   \<and> hasPermission (checkPermission ADMIN
      \<lparr>token = Some ''t'', user = Some (Encoded (JObj [(''role'', JStr ''SUPER_ADMIN'')])),
       isAuthenticated = Some ''true'', superAdminUser = None\<rparr>)
   \<and> \<not> hasPermission (checkPermission ADMIN
      \<lparr>token = Some ''t'', user = None, isAuthenticated = None, superAdminUser = None\<rparr>)
   \<and> message (checkPermission ADMIN
      \<lparr>token = Some ''t'', user = None, isAuthenticated = None, superAdminUser = None\<rparr>)
       = Some (JStr msg_not_logged_in)"
  using checkPermission_hierarchy
    [of ADMIN "\<lparr>token = Some ''t'', user = Some (Encoded (JObj [(''role'', JStr ''ADMIN'')])),
       isAuthenticated = Some ''true'', superAdminUser = None\<rparr>"
       "\<lparr>token = Some ''t'', user = Some (Encoded (JObj [(''role'', JStr ''SUPER_ADMIN'')])),
       isAuthenticated = Some ''true'', superAdminUser = None\<rparr>"]
    checkPermission_hierarchy
    [of ADMIN "\<lparr>token = Some ''t'', user = None, isAuthenticated = None, superAdminUser = None\<rparr>"]
  by (simp add: stored_role_level_def hierarchy_level_def to_text_def denied_def)

section \<open>Properties of the authorization headers\<close>

text \<open>
  Claim C3, as stated, fails: the header is attached on truthiness, not on
  \<^verbatim>\<open>isSuperAdminProxy\<close> being \<^verbatim>\<open>true\<close> and \<^verbatim>\<open>departmentId\<close> being non-null. A stored user
  with \<^verbatim>\<open>isSuperAdminProxy: true\<close> and the non-null \<^verbatim>\<open>departmentId: 0\<close> gets the bearer
  token only.
\<close>

theorem getAuthHeader_zero_department_counterexample:
  "getAuthHeader
     \<lparr>token = Some ''t'',
      user = Some (Encoded (JObj [(''isSuperAdminProxy'', JBool True), (''departmentId'', JNum ''0'')])),
      isAuthenticated = Some ''true'', superAdminUser = None\<rparr>
   = Inr [(''Authorization'', ''Bearer t'')]
   \<and> get_prop (JObj [(''isSuperAdminProxy'', JBool True), (''departmentId'', JNum ''0'')])
        ''isSuperAdminProxy'' = Inr (Some (JBool True))
   \<and> get_prop (JObj [(''isSuperAdminProxy'', JBool True), (''departmentId'', JNum ''0'')])
        ''departmentId'' = Inr (Some (JNum ''0''))
   \<and> JNum ''0'' \<noteq> JNull"
  by (simp add: getAuthHeader_def bearer_def)


text \<open>
  Claim C3, amended. Whenever \<^verbatim>\<open>getAuthHeader\<close> returns, the headers are the bearer
  token alone, or the bearer token followed by \<^verbatim>\<open>X-Proxy-Department-Id\<close>; the second
  exactly when the stored user is an object whose \<^verbatim>\<open>isSuperAdminProxy\<close> and
  \<^verbatim>\<open>departmentId\<close> are both truthy, and the value is then that \<^verbatim>\<open>departmentId\<close> as a
  string. It throws exactly when the stored user text does not parse, parses to
  \<^verbatim>\<open>null\<close>, or the hinted \<^verbatim>\<open>departmentId\<close> has no string form.
\<close>

theorem getAuthHeader_proxy_header:
  "(getAuthHeader s = Inr h \<longrightarrow>
      (case proxy_hint s of
         None \<Rightarrow> h = [(''Authorization'', bearer s)]
       | Some d \<Rightarrow> \<exists>t. js_toString d = Inr t \<and>
                    h = [(''Authorization'', bearer s), (''X-Proxy-Department-Id'', t)]))
   \<and> ((\<exists>e. getAuthHeader s = Inl e) =
        (user s = Some Malformed \<or> user s = Some (Encoded JNull) \<or>
         (\<exists>d e. proxy_hint s = Some d \<and> js_toString d = Inl e)))"
proof (cases "user s")
  case None
  then show ?thesis by (simp add: getAuthHeader_def proxy_hint_def)
next
  case (Some en)
  show ?thesis
  proof (cases en)
    case EmptyText
    with Some show ?thesis by (simp add: getAuthHeader_def proxy_hint_def)
  next
    case Malformed
    with Some show ?thesis by (simp add: getAuthHeader_def proxy_hint_def)
  next
    case (Encoded u)
    show ?thesis
    proof (cases u)
      case (JObj kvs)
      show ?thesis
      proof (cases "truthy (map_of kvs ''isSuperAdminProxy'') \<and> truthy (map_of kvs ''departmentId'')")
        case True
        then obtain d where d: "map_of kvs ''departmentId'' = Some d"
          by (cases "map_of kvs ''departmentId''") auto
        with True Some Encoded JObj show ?thesis
          by (cases "js_toString d") (auto simp: getAuthHeader_def proxy_hint_def Let_def)
      next
        case False
        with Some Encoded JObj show ?thesis
          by (auto simp: getAuthHeader_def proxy_hint_def Let_def)
      qed
    qed (use Some Encoded in \<open>auto simp: getAuthHeader_def proxy_hint_def Let_def\<close>)
  qed
qed

theorem getAuthHeader_proxy_header_witness:
  "getAuthHeader
     \<lparr>token = Some ''t'',
      user = Some (Encoded (JObj [(''isSuperAdminProxy'', JBool True), (''departmentId'', JNum ''7'')])),
      isAuthenticated = Some ''true'', superAdminUser = None\<rparr>
   = Inr [(''Authorization'', ''Bearer t''), (''X-Proxy-Department-Id'', ''7'')]
   \<and> proxy_hint
     \<lparr>token = Some ''t'',
      user = Some (Encoded (JObj [(''isSuperAdminProxy'', JBool True), (''departmentId'', JNum ''7'')])),
      isAuthenticated = Some ''true'', superAdminUser = None\<rparr> = Some (JNum ''7'')"
  using getAuthHeader_proxy_header
    [of "\<lparr>token = Some ''t'',
      user = Some (Encoded (JObj [(''isSuperAdminProxy'', JBool True), (''departmentId'', JNum ''7'')])),
      isAuthenticated = Some ''true'', superAdminUser = None\<rparr>"
      "[(''Authorization'', ''Bearer t''), (''X-Proxy-Department-Id'', ''7'')]"]
  by (simp add: getAuthHeader_def bearer_def proxy_hint_def)

section \<open>Properties of impersonation\<close>


lemma get_prop_total: "u \<noteq> JNull \<Longrightarrow> \<exists>v. get_prop u k = Inr v"
  by (cases u) simp_all






lemma enter_as_keeps:
  "token (snd (enter_as cu dept s)) = token s \<and>
   isAuthenticated (snd (enter_as cu dept s)) = isAuthenticated s"
  by (auto simp: enter_as_def Let_def split: sum.splits)






lemma enter_variants_token:
  shows "token (snd (enterDepartmentDashboard dept s)) = token s"
    and "token (snd (enterDepartmentDashboard_page dept s)) = token s"
  using enter_as_keeps
  by (auto simp: enterDepartmentDashboard_def enterDepartmentDashboard_page_def split: sum.splits)








section \<open>Properties of the fetch wrapper\<close>

lemma map_of_assign: "map_of (assign kvs k v) = (map_of kvs)(k \<mapsto> v)"
  by (induction kvs) (auto simp: fun_eq_iff)

lemma map_of_spread: "map_of (spread a b) = map_of a ++ map_of (rev b)"
  unfolding spread_def
proof (induction b arbitrary: a)
  case Nil
  then show ?case by simp
next
  case (Cons p b)
  obtain k v where p: "p = (k, v)" by (cases p)
  show ?case
    by (simp add: p Cons.IH map_of_assign fun_eq_iff map_add_def split: option.splits)
qed

lemma ok_not_401: "ok r \<Longrightarrow> status r \<noteq> 401"
  by (simp add: ok_def)

lemma apiFetch_requests:
  "requests (snd (apiFetch srv url opts w)) = requests w @ [(url, final_options opts)]"
  by (simp add: apiFetch_def Let_def handleTokenExpired_def split: fetch_result.splits)

lemma apiFetch_responded:
  assumes "srv (requests w) (url, final_options opts) = Responded r" "status r \<noteq> 401"
  shows "apiFetch srv url opts w = (Inr r, w\<lparr>requests := requests w @ [(url, final_options opts)]\<rparr>)"
  using assms by (simp add: apiFetch_def Let_def)

text \<open>
  Claim C10. When the backend answers a request made through \<^verbatim>\<open>apiFetch\<close> with status
  401, the four stored credentials are removed and the caller gets the error, so no
  caller is ever handed a response of status 401; a response of any other status is
  handed over as it is and nothing but the request log changes. The request sent has
  the caller's method and body; its \<^verbatim>\<open>cache\<close> is the caller's, and \<^verbatim>\<open>no-store\<close> only when
  the caller gave none; each of its headers has the value the caller assigned it last,
  and the two no-cache defaults apply only to names the caller did not assign.
\<close>

theorem apiFetch_unauthorized:
  "(srv (requests w) (url, final_options opts) = Responded r \<and> status r = 401 \<longrightarrow>
      fst (apiFetch srv url opts w) = Inl LoginExpired
      \<and> localStorage (snd (apiFetch srv url opts w))
          = \<lparr>token = None, user = None, isAuthenticated = None, superAdminUser = None\<rparr>)
   \<and> (srv (requests w) (url, final_options opts) = Responded r \<and> status r \<noteq> 401 \<longrightarrow>
      apiFetch srv url opts w
        = (Inr r, w\<lparr>requests := requests w @ [(url, final_options opts)]\<rparr>))
   \<and> (\<forall>r'. fst (apiFetch srv url opts w) = Inr r' \<longrightarrow> status r' \<noteq> 401)
   \<and> requests (snd (apiFetch srv url opts w)) = requests w @ [(url, final_options opts)]
   \<and> cache (final_options opts) = (case cache opts of None \<Rightarrow> Some ''no-store'' | Some c \<Rightarrow> Some c)
   \<and> http_method (final_options opts) = http_method opts
   \<and> body (final_options opts) = body opts
   \<and> (\<exists>h. headers (final_options opts) = Some h
        \<and> (\<forall>k. map_of h k =
              (case map_of (rev (case headers opts of None \<Rightarrow> [] | Some c \<Rightarrow> c)) k of
                 Some v \<Rightarrow> Some v
               | None \<Rightarrow> map_of [(''Pragma'', ''no-cache''), (''Cache-Control'', ''no-cache'')] k)))"
proof -
  have a: "fst (apiFetch srv url opts w) = Inl LoginExpired
      \<and> localStorage (snd (apiFetch srv url opts w))
          = \<lparr>token = None, user = None, isAuthenticated = None, superAdminUser = None\<rparr>"
    if "srv (requests w) (url, final_options opts) = Responded r \<and> status r = 401"
    using that by (simp add: apiFetch_def Let_def handleTokenExpired_def)
  have c: "status r' \<noteq> 401" if "fst (apiFetch srv url opts w) = Inr r'" for r'
    using that by (auto simp: apiFetch_def Let_def split: fetch_result.splits if_splits)
  have h: "map_of (spread [(''Pragma'', ''no-cache''), (''Cache-Control'', ''no-cache'')] c) k =
              (case map_of (rev c) k of
                 Some v \<Rightarrow> Some v
               | None \<Rightarrow> map_of [(''Pragma'', ''no-cache''), (''Cache-Control'', ''no-cache'')] k)"
    for c k
    by (simp only: map_of_spread map_add_def)
  have f: "cache (final_options opts) = (case cache opts of None \<Rightarrow> Some ''no-store'' | Some c \<Rightarrow> Some c)"
    "http_method (final_options opts) = http_method opts" "body (final_options opts) = body opts"
    "headers (final_options opts) = Some (spread [(''Pragma'', ''no-cache''), (''Cache-Control'', ''no-cache'')]
                             (case headers opts of None \<Rightarrow> [] | Some h \<Rightarrow> h))"
    by (simp_all add: final_options_def)
  show ?thesis
    using a c h f apiFetch_responded[of srv w url opts r] apiFetch_requests[of srv url opts w]
    by (intro conjI impI allI) (blast | simp)+
qed

theorem apiFetch_unauthorized_witness:
  "fst (apiFetch (server_always \<lparr>status = 401, payload = None\<rparr>) ''/api/files/'' plain_get
          (fresh_world (logged_in admin_user)))
     = Inl LoginExpired
   \<and> localStorage (snd (apiFetch (server_always \<lparr>status = 401, payload = None\<rparr>)
          ''/api/files/'' plain_get (fresh_world (logged_in admin_user))))
     = \<lparr>token = None, user = None, isAuthenticated = None, superAdminUser = None\<rparr>
   \<and> requests (snd (apiFetch (server_always \<lparr>status = 401, payload = None\<rparr>)
          ''/api/files/'' plain_get (fresh_world (logged_in admin_user))))
     = [(''/api/files/'',
         \<lparr>http_method = Some ''GET'',
          headers = Some [(''Pragma'', ''no-cache''), (''Cache-Control'', ''no-cache'')],
          body = None, cache = Some ''no-store''\<rparr>)]
   \<and> fst (apiFetch (server_always \<lparr>status = 404, payload = None\<rparr>) ''/api/files/''
          (plain_get\<lparr>cache := Some ''reload''\<rparr>) (fresh_world (logged_in admin_user)))
     = Inr \<lparr>status = 404, payload = None\<rparr>
   \<and> cache (final_options (plain_get\<lparr>cache := Some ''reload''\<rparr>)) = Some ''reload''"
proof -
  have 1: "server_always \<lparr>status = 401, payload = None\<rparr>
       (requests (fresh_world (logged_in admin_user)))
       (''/api/files/'', final_options plain_get) = Responded \<lparr>status = 401, payload = None\<rparr>
       \<and> status \<lparr>status = 401, payload = None\<rparr> = 401"
    by (simp add: server_always_def)
  have 2: "server_always \<lparr>status = 404, payload = None\<rparr>
       (requests (fresh_world (logged_in admin_user)))
       (''/api/files/'', final_options (plain_get\<lparr>cache := Some ''reload''\<rparr>))
         = Responded \<lparr>status = 404, payload = None\<rparr>
       \<and> status \<lparr>status = 404, payload = None\<rparr> \<noteq> 401"
    by (simp add: server_always_def)
  from apiFetch_unauthorized
    [of "server_always \<lparr>status = 401, payload = None\<rparr>" "fresh_world (logged_in admin_user)"
        "''/api/files/''" plain_get "\<lparr>status = 401, payload = None\<rparr>"] 1
  have a: "fst (apiFetch (server_always \<lparr>status = 401, payload = None\<rparr>) ''/api/files/'' plain_get
          (fresh_world (logged_in admin_user)))
     = Inl LoginExpired
   \<and> localStorage (snd (apiFetch (server_always \<lparr>status = 401, payload = None\<rparr>)
          ''/api/files/'' plain_get (fresh_world (logged_in admin_user))))
     = \<lparr>token = None, user = None, isAuthenticated = None, superAdminUser = None\<rparr>
   \<and> requests (snd (apiFetch (server_always \<lparr>status = 401, payload = None\<rparr>)
          ''/api/files/'' plain_get (fresh_world (logged_in admin_user))))
     = requests (fresh_world (logged_in admin_user)) @ [(''/api/files/'', final_options plain_get)]"
    by simp
  from apiFetch_unauthorized
    [of "server_always \<lparr>status = 404, payload = None\<rparr>" "fresh_world (logged_in admin_user)"
        "''/api/files/''" "plain_get\<lparr>cache := Some ''reload''\<rparr>" "\<lparr>status = 404, payload = None\<rparr>"] 2
  have b: "fst (apiFetch (server_always \<lparr>status = 404, payload = None\<rparr>) ''/api/files/''
          (plain_get\<lparr>cache := Some ''reload''\<rparr>) (fresh_world (logged_in admin_user)))
     = Inr \<lparr>status = 404, payload = None\<rparr>
     \<and> cache (final_options (plain_get\<lparr>cache := Some ''reload''\<rparr>)) = Some ''reload''"
    by (simp add: plain_get_def)
  from a b show ?thesis
    by (simp add: fresh_world_def plain_get_def final_options_def spread_def)
qed

section \<open>Properties of the batch upload functions\<close>

text \<open>
  Claim C7, as stated, fails in its second half: a passed check and an ok response do
  not suffice for \<^verbatim>\<open>success: true\<close>. The stored \<^verbatim>\<open>ADMIN\<close> user passes the check and the
  backend answers the upload request with status 200 and the body \<^verbatim>\<open>null\<close>; reading
  \<^verbatim>\<open>data.taskId\<close> throws, the \<^verbatim>\<open>catch\<close> block returns \<^verbatim>\<open>success: false\<close>, and the upload
  request has been sent.
\<close>

theorem batchUpload_null_body_counterexample:
  "hasPermission (checkPermission ADMIN (localStorage (fresh_world (logged_in admin_user))))
   \<and> ok \<lparr>status = 200, payload = Some JNull\<rparr>
   \<and> fst (batchUpload (server_always \<lparr>status = 200, payload = Some JNull\<rparr>)
        \<lparr>files = two_files, categories = None, removeFileIds = None\<rparr>
        (fresh_world (logged_in admin_user)))
      = \<lparr>message = Some (JStr msg_upload_task_network), success = False, data = None\<rparr>
   \<and> length (requests (snd (batchUpload (server_always \<lparr>status = 200, payload = Some JNull\<rparr>)
        \<lparr>files = two_files, categories = None, removeFileIds = None\<rparr>
        (fresh_world (logged_in admin_user))))) = 1"
  by (simp add: fresh_world_def logged_in_def admin_user_def checkPermission_def
      checkPermission_body_def to_text_def roleHierarchy_def granted_def Let_def ok_def
      batchUpload_def batchUpload_try_def caught_def getAuthHeader_def bearer_def
      apiFetch_def server_always_def response_json_def failure_def)

text \<open>
  Claim C7, amended. When the stored user does not pass the \<^verbatim>\<open>ADMIN\<close> check,
  \<^verbatim>\<open>batchUpload\<close> returns \<^verbatim>\<open>success: false\<close> with the message of the check and leaves
  the state, and so the request log, as it was: no upload request is issued. When the
  check passes and the backend answers the upload request with an ok response whose
  body is a JSON value other than \<^verbatim>\<open>null\<close>, it returns \<^verbatim>\<open>success: true\<close> with the
  \<^verbatim>\<open>taskId\<close> of that body, having issued that one request. When the body of the ok
  response is \<^verbatim>\<open>null\<close> or not JSON, it returns \<^verbatim>\<open>success: false\<close> with the message of
  its \<^verbatim>\<open>catch\<close> block.
\<close>

theorem batchUpload_permission_gate:
  "(\<not> hasPermission (checkPermission ADMIN (localStorage w)) \<longrightarrow>
      batchUpload srv uploadData w
        = (\<lparr>message = message (checkPermission ADMIN (localStorage w)), success = False,
            data = None\<rparr>, w)
      \<and> message (checkPermission ADMIN (localStorage w)) \<noteq> None)
   \<and> (hasPermission (checkPermission ADMIN (localStorage w))
       \<and> getAuthHeader (localStorage w) = Inr h
       \<and> srv (requests w)
            (fst (batch_upload_request h uploadData),
             final_options (snd (batch_upload_request h uploadData))) = Responded r
       \<and> ok r \<and> payload r = Some d \<and> d \<noteq> JNull \<longrightarrow>
      (\<exists>tid m. get_prop d ''taskId'' = Inr tid \<and> get_prop d ''message'' = Inr m
         \<and> batchUpload srv uploadData w
            = (\<lparr>message = None, success = True,
                data = Some \<lparr>message = Some (or_default m msg_upload_task_created),
                             taskId = tid\<rparr>\<rparr>,
               w\<lparr>requests := requests w @
                    [(fst (batch_upload_request h uploadData),
                      final_options (snd (batch_upload_request h uploadData)))]\<rparr>)))
   \<and> (hasPermission (checkPermission ADMIN (localStorage w))
       \<and> getAuthHeader (localStorage w) = Inr h
       \<and> srv (requests w)
            (fst (batch_upload_request h uploadData),
             final_options (snd (batch_upload_request h uploadData))) = Responded r
       \<and> ok r \<and> (payload r = None \<or> payload r = Some JNull) \<longrightarrow>
      batchUpload srv uploadData w
        = (\<lparr>message = Some (JStr msg_upload_task_network), success = False, data = None\<rparr>,
           w\<lparr>requests := requests w @
                [(fst (batch_upload_request h uploadData),
                  final_options (snd (batch_upload_request h uploadData)))]\<rparr>))"
proof -
  have refused: "batchUpload srv uploadData w
        = (\<lparr>message = message (checkPermission ADMIN (localStorage w)), success = False,
            data = None\<rparr>, w)
      \<and> message (checkPermission ADMIN (localStorage w)) \<noteq> None"
    if "\<not> hasPermission (checkPermission ADMIN (localStorage w))"
    using that checkPermission_message[of ADMIN "localStorage w"]
    by (simp add: batchUpload_def batchUpload_try_def caught_def)
  have sent: "apiFetch srv (fst (batch_upload_request h uploadData))
       (snd (batch_upload_request h uploadData)) w
     = (Inr r, w\<lparr>requests := requests w @
                    [(fst (batch_upload_request h uploadData),
                      final_options (snd (batch_upload_request h uploadData)))]\<rparr>)"
    if "srv (requests w)
            (fst (batch_upload_request h uploadData),
             final_options (snd (batch_upload_request h uploadData))) = Responded r" "ok r"
    using that apiFetch_responded ok_not_401 by blast
  have accepted: "\<exists>tid m. get_prop d ''taskId'' = Inr tid \<and> get_prop d ''message'' = Inr m
         \<and> batchUpload srv uploadData w
            = (\<lparr>message = None, success = True,
                data = Some \<lparr>message = Some (or_default m msg_upload_task_created),
                             taskId = tid\<rparr>\<rparr>,
               w\<lparr>requests := requests w @
                    [(fst (batch_upload_request h uploadData),
                      final_options (snd (batch_upload_request h uploadData)))]\<rparr>)"
    if a: "hasPermission (checkPermission ADMIN (localStorage w))
       \<and> getAuthHeader (localStorage w) = Inr h
       \<and> srv (requests w)
            (fst (batch_upload_request h uploadData),
             final_options (snd (batch_upload_request h uploadData))) = Responded r
       \<and> ok r \<and> payload r = Some d \<and> d \<noteq> JNull"
  proof -
    from a obtain tid m where p: "get_prop d ''taskId'' = Inr tid" "get_prop d ''message'' = Inr m"
      using get_prop_total[of d] by blast
    from a p sent show ?thesis
      by (simp add: batchUpload_def batchUpload_try_def caught_def response_json_def)
  qed
  have unreadable: "batchUpload srv uploadData w
        = (\<lparr>message = Some (JStr msg_upload_task_network), success = False, data = None\<rparr>,
           w\<lparr>requests := requests w @
                [(fst (batch_upload_request h uploadData),
                  final_options (snd (batch_upload_request h uploadData)))]\<rparr>)"
    if a: "hasPermission (checkPermission ADMIN (localStorage w))
       \<and> getAuthHeader (localStorage w) = Inr h
       \<and> srv (requests w)
            (fst (batch_upload_request h uploadData),
             final_options (snd (batch_upload_request h uploadData))) = Responded r
       \<and> ok r \<and> (payload r = None \<or> payload r = Some JNull)"
    using a sent
    by (auto simp: batchUpload_def batchUpload_try_def caught_def response_json_def failure_def)
  show ?thesis
    using refused accepted unreadable by blast
qed

theorem batchUpload_permission_gate_witness:
  "\<not> hasPermission (checkPermission ADMIN (logged_in guest_user))
   \<and> batchUpload (server_always \<lparr>status = 200, payload = Some (JObj [(''taskId'', JStr ''task-1'')])\<rparr>)
        \<lparr>files = two_files, categories = None, removeFileIds = None\<rparr>
        (fresh_world (logged_in guest_user))
      = (\<lparr>message = Some (JStr msg_insufficient), success = False, data = None\<rparr>,
         fresh_world (logged_in guest_user))
   \<and> hasPermission (checkPermission ADMIN (logged_in admin_user))
   \<and> fst (batchUpload (server_always \<lparr>status = 200, payload = Some (JObj [(''taskId'', JStr ''task-1'')])\<rparr>)
        \<lparr>files = two_files, categories = None, removeFileIds = None\<rparr>
        (fresh_world (logged_in admin_user)))
      = \<lparr>message = None, success = True,
         data = Some \<lparr>message = Some (JStr msg_upload_task_created),
                      taskId = Some (JStr ''task-1'')\<rparr>\<rparr>
   \<and> fst (batchUpload (server_always \<lparr>status = 200, payload = None\<rparr>)
        \<lparr>files = two_files, categories = None, removeFileIds = None\<rparr>
        (fresh_world (logged_in admin_user)))
      = \<lparr>message = Some (JStr msg_upload_task_network), success = False, data = None\<rparr>"
proof -
  let ?srv = "server_always \<lparr>status = 200, payload = Some (JObj [(''taskId'', JStr ''task-1'')])\<rparr>"
  let ?bad = "server_always \<lparr>status = 200, payload = None\<rparr>"
  let ?d = "\<lparr>files = two_files, categories = None, removeFileIds = None\<rparr>"
  have g: "\<not> hasPermission (checkPermission ADMIN (localStorage (fresh_world (logged_in guest_user))))"
    and gm: "message (checkPermission ADMIN (localStorage (fresh_world (logged_in guest_user))))
         = Some (JStr msg_insufficient)"
    by (simp_all add: fresh_world_def logged_in_def guest_user_def checkPermission_def
        checkPermission_body_def to_text_def roleHierarchy_def object_prototype_keys_def
        denied_def Let_def)
  have a: "hasPermission (checkPermission ADMIN (localStorage (fresh_world (logged_in admin_user))))"
    by (simp add: fresh_world_def logged_in_def admin_user_def checkPermission_def
        checkPermission_body_def to_text_def roleHierarchy_def granted_def Let_def)
  have h: "getAuthHeader (localStorage (fresh_world (logged_in admin_user)))
        = Inr [(''Authorization'', ''Bearer t'')]"
    by (simp add: fresh_world_def logged_in_def admin_user_def getAuthHeader_def bearer_def)
  have r: "?srv (requests (fresh_world (logged_in admin_user)))
            (fst (batch_upload_request [(''Authorization'', ''Bearer t'')] ?d),
             final_options (snd (batch_upload_request [(''Authorization'', ''Bearer t'')] ?d)))
         = Responded \<lparr>status = 200, payload = Some (JObj [(''taskId'', JStr ''task-1'')])\<rparr>"
    by (simp add: server_always_def)
  have rb: "?bad (requests (fresh_world (logged_in admin_user)))
            (fst (batch_upload_request [(''Authorization'', ''Bearer t'')] ?d),
             final_options (snd (batch_upload_request [(''Authorization'', ''Bearer t'')] ?d)))
         = Responded \<lparr>status = 200, payload = None\<rparr>"
    by (simp add: server_always_def)
  have o: "ok \<lparr>status = 200, payload = Some (JObj [(''taskId'', JStr ''task-1'')])\<rparr>"
    "ok \<lparr>status = 200, payload = None\<rparr>"
    by (simp_all add: ok_def)
  from batchUpload_permission_gate [of "fresh_world (logged_in guest_user)" ?srv ?d] g gm
  have 1: "batchUpload ?srv ?d (fresh_world (logged_in guest_user))
      = (\<lparr>message = Some (JStr msg_insufficient), success = False, data = None\<rparr>,
         fresh_world (logged_in guest_user))"
    by simp
  from batchUpload_permission_gate [of "fresh_world (logged_in admin_user)" ?srv ?d
      "[(''Authorization'', ''Bearer t'')]"
      "\<lparr>status = 200, payload = Some (JObj [(''taskId'', JStr ''task-1'')])\<rparr>"
      "JObj [(''taskId'', JStr ''task-1'')]"] a h r o
  have 2: "fst (batchUpload ?srv ?d (fresh_world (logged_in admin_user)))
      = \<lparr>message = None, success = True,
         data = Some \<lparr>message = Some (JStr msg_upload_task_created),
                      taskId = Some (JStr ''task-1'')\<rparr>\<rparr>"
    by (auto simp: or_default_def)
  from batchUpload_permission_gate [of "fresh_world (logged_in admin_user)" ?bad ?d
      "[(''Authorization'', ''Bearer t'')]" "\<lparr>status = 200, payload = None\<rparr>"] a h rb o
  have 3: "fst (batchUpload ?bad ?d (fresh_world (logged_in admin_user)))
      = \<lparr>message = Some (JStr msg_upload_task_network), success = False, data = None\<rparr>"
    by simp
  from g a 1 2 3 show ?thesis by (simp add: fresh_world_def)
qed

text \<open>
  Claim C8, as stated, fails in its second half: an ok response that carries no
  \<^verbatim>\<open>results\<close> because its body is \<^verbatim>\<open>null\<close> does not give the empty list. Reading
  \<^verbatim>\<open>data.results\<close> throws and the \<^verbatim>\<open>catch\<close> block returns \<^verbatim>\<open>success: false\<close> with no
  data.
\<close>

theorem checkDuplicates_null_body_counterexample:
  "ok \<lparr>status = 200, payload = Some JNull\<rparr>
   \<and> fst (checkDuplicates (server_always \<lparr>status = 200, payload = Some JNull\<rparr>) two_files
        (fresh_world (logged_in admin_user)))
      = \<lparr>message = Some (JStr msg_check_duplicates_network), success = False, data = None\<rparr>"
  by (simp add: fresh_world_def logged_in_def admin_user_def ok_def Let_def
      checkDuplicates_def checkDuplicates_try_def caught_def getAuthHeader_def bearer_def
      apiFetch_def server_always_def response_json_def failure_def)

text \<open>
  Claim C8, amended. \<^verbatim>\<open>checkDuplicates\<close> issues at most one request: none when the
  headers cannot be built, and otherwise the POST to \<^verbatim>\<open>/upload/check-duplicates\<close> whose
  body is \<^verbatim>\<open>{ filenames }\<close> with the \<^verbatim>\<open>name\<close> of every input file, one entry per file,
  in input order. On an ok response whose body is a JSON value other than \<^verbatim>\<open>null\<close> it
  returns \<^verbatim>\<open>success: true\<close> with the \<^verbatim>\<open>results\<close> of the body: a results list
  unchanged, and the empty list when the body has no \<^verbatim>\<open>results\<close>. On an ok response
  whose body is \<^verbatim>\<open>null\<close> or not JSON it returns \<^verbatim>\<open>success: false\<close> with the message of
  its \<^verbatim>\<open>catch\<close> block.
\<close>

theorem checkDuplicates_filenames:
  "(getAuthHeader (localStorage w) = Inr h \<longrightarrow>
      requests (snd (checkDuplicates srv fileList w))
        = requests w @
          [(API_BASE_URL @ ''/upload/check-duplicates'',
            final_options
              \<lparr>http_method = Some ''POST'',
               headers = Some (assign h ''Content-Type'' ''application/json''),
               body = Some (JsonBody
                  (JObj [(''filenames'', JArr (map (\<lambda>f. JStr (name f)) fileList))])),
               cache = None\<rparr>)])
   \<and> ((\<exists>e. getAuthHeader (localStorage w) = Inl e) \<longrightarrow>
        requests (snd (checkDuplicates srv fileList w)) = requests w)
   \<and> (getAuthHeader (localStorage w) = Inr h
       \<and> srv (requests w)
            (fst (check_duplicates_request h fileList),
             final_options (snd (check_duplicates_request h fileList))) = Responded r
       \<and> ok r \<and> payload r = Some d \<and> d \<noteq> JNull \<longrightarrow>
        (\<exists>results. get_prop d ''results'' = Inr results
          \<and> fst (checkDuplicates srv fileList w)
            = \<lparr>message = None, success = True,
               data = Some (if truthy results then the results else JArr [])\<rparr>
          \<and> (\<forall>xs. results = Some (JArr xs) \<longrightarrow>
                 data (fst (checkDuplicates srv fileList w)) = Some (JArr xs))
          \<and> (results = None \<longrightarrow>
                 data (fst (checkDuplicates srv fileList w)) = Some (JArr []))))
   \<and> (getAuthHeader (localStorage w) = Inr h
       \<and> srv (requests w)
            (fst (check_duplicates_request h fileList),
             final_options (snd (check_duplicates_request h fileList))) = Responded r
       \<and> ok r \<and> (payload r = None \<or> payload r = Some JNull) \<longrightarrow>
        fst (checkDuplicates srv fileList w)
          = \<lparr>message = Some (JStr msg_check_duplicates_network), success = False,
             data = None\<rparr>)"
proof -
  have sent: "requests (snd (checkDuplicates srv fileList w))
        = requests w @
          [(API_BASE_URL @ ''/upload/check-duplicates'',
            final_options
              \<lparr>http_method = Some ''POST'',
               headers = Some (assign h ''Content-Type'' ''application/json''),
               body = Some (JsonBody
                  (JObj [(''filenames'', JArr (map (\<lambda>f. JStr (name f)) fileList))])),
               cache = None\<rparr>)]"
    if h: "getAuthHeader (localStorage w) = Inr h"
  proof -
    have "requests (snd (checkDuplicates_try srv fileList w))
        = requests w @ [(fst (check_duplicates_request h fileList),
                         final_options (snd (check_duplicates_request h fileList)))]"
      using apiFetch_requests[of srv "fst (check_duplicates_request h fileList)"
          "snd (check_duplicates_request h fileList)" w]
      by (auto simp: checkDuplicates_try_def h split: prod.splits sum.splits)
    then show ?thesis
      by (simp add: checkDuplicates_def caught_def check_duplicates_request_def split: sum.splits)
  qed
  have unsent: "requests (snd (checkDuplicates srv fileList w)) = requests w"
    if "\<exists>e. getAuthHeader (localStorage w) = Inl e"
    using that by (auto simp: checkDuplicates_def caught_def checkDuplicates_try_def)
  have fetched: "apiFetch srv (fst (check_duplicates_request h fileList))
         (snd (check_duplicates_request h fileList)) w
       = (Inr r, w\<lparr>requests := requests w @
                      [(fst (check_duplicates_request h fileList),
                        final_options (snd (check_duplicates_request h fileList)))]\<rparr>)"
    if "srv (requests w)
            (fst (check_duplicates_request h fileList),
             final_options (snd (check_duplicates_request h fileList))) = Responded r" "ok r"
    using that apiFetch_responded ok_not_401 by blast
  have answered: "\<exists>results. get_prop d ''results'' = Inr results
          \<and> fst (checkDuplicates srv fileList w)
            = \<lparr>message = None, success = True,
               data = Some (if truthy results then the results else JArr [])\<rparr>
          \<and> (\<forall>xs. results = Some (JArr xs) \<longrightarrow>
                 data (fst (checkDuplicates srv fileList w)) = Some (JArr xs))
          \<and> (results = None \<longrightarrow>
                 data (fst (checkDuplicates srv fileList w)) = Some (JArr []))"
    if a: "getAuthHeader (localStorage w) = Inr h
       \<and> srv (requests w)
            (fst (check_duplicates_request h fileList),
             final_options (snd (check_duplicates_request h fileList))) = Responded r
       \<and> ok r \<and> payload r = Some d \<and> d \<noteq> JNull"
  proof -
    from a obtain results where p: "get_prop d ''results'' = Inr results"
      using get_prop_total[of d] by blast
    from a p fetched have "fst (checkDuplicates srv fileList w)
            = \<lparr>message = None, success = True,
               data = Some (if truthy results then the results else JArr [])\<rparr>"
      by (simp add: checkDuplicates_def checkDuplicates_try_def caught_def response_json_def)
    with p show ?thesis by (intro exI[of _ results]) simp
  qed
  have unreadable: "fst (checkDuplicates srv fileList w)
          = \<lparr>message = Some (JStr msg_check_duplicates_network), success = False,
             data = None\<rparr>"
    if a: "getAuthHeader (localStorage w) = Inr h
       \<and> srv (requests w)
            (fst (check_duplicates_request h fileList),
             final_options (snd (check_duplicates_request h fileList))) = Responded r
       \<and> ok r \<and> (payload r = None \<or> payload r = Some JNull)"
    using a fetched
    by (auto simp: checkDuplicates_def checkDuplicates_try_def caught_def response_json_def
        failure_def)
  show ?thesis
    using sent unsent answered unreadable by blast
qed

theorem checkDuplicates_filenames_witness:
  "getAuthHeader (localStorage (fresh_world (logged_in admin_user)))
      = Inr [(''Authorization'', ''Bearer t'')]
   \<and> requests (snd (checkDuplicates
        (server_always \<lparr>status = 200, payload = Some (JObj [(''results'', JArr [JStr ''new'', JStr ''duplicate''])])\<rparr>)
        two_files (fresh_world (logged_in admin_user))))
      = [(''/api/upload/check-duplicates'',
          \<lparr>http_method = Some ''POST'',
           headers = Some [(''Pragma'', ''no-cache''), (''Cache-Control'', ''no-cache''),
                           (''Authorization'', ''Bearer t''),
                           (''Content-Type'', ''application/json'')],
           body = Some (JsonBody (JObj [(''filenames'', JArr [JStr ''policy.pdf'', JStr ''notes.txt''])])),
           cache = Some ''no-store''\<rparr>)]
   \<and> data (fst (checkDuplicates
        (server_always \<lparr>status = 200, payload = Some (JObj [(''results'', JArr [JStr ''new'', JStr ''duplicate''])])\<rparr>)
        two_files (fresh_world (logged_in admin_user))))
      = Some (JArr [JStr ''new'', JStr ''duplicate''])
   \<and> fst (checkDuplicates (server_always \<lparr>status = 200, payload = None\<rparr>) two_files
        (fresh_world (logged_in admin_user)))
      = \<lparr>message = Some (JStr msg_check_duplicates_network), success = False, data = None\<rparr>"
proof -
  let ?r = "\<lparr>status = 200, payload = Some (JObj [(''results'', JArr [JStr ''new'', JStr ''duplicate''])])\<rparr>"
  let ?b = "\<lparr>status = 200, payload = None\<rparr>"
  let ?w = "fresh_world (logged_in admin_user)"
  let ?h = "[(''Authorization'', ''Bearer t'')]"
  have h: "getAuthHeader (localStorage ?w) = Inr ?h"
    by (simp add: fresh_world_def logged_in_def admin_user_def getAuthHeader_def bearer_def)
  have r: "server_always ?r (requests ?w)
            (fst (check_duplicates_request ?h two_files),
             final_options (snd (check_duplicates_request ?h two_files))) = Responded ?r"
    "server_always ?b (requests ?w)
            (fst (check_duplicates_request ?h two_files),
             final_options (snd (check_duplicates_request ?h two_files))) = Responded ?b"
    by (simp_all add: server_always_def)
  have o: "ok ?r" "payload ?r = Some (JObj [(''results'', JArr [JStr ''new'', JStr ''duplicate''])])"
    "JObj [(''results'', JArr [JStr ''new'', JStr ''duplicate''])] \<noteq> JNull"
    "get_prop (JObj [(''results'', JArr [JStr ''new'', JStr ''duplicate''])]) ''results''
       = Inr (Some (JArr [JStr ''new'', JStr ''duplicate'']))"
    "ok ?b" "payload ?b = None"
    by (simp_all add: ok_def)
  from checkDuplicates_filenames [of ?w ?h "server_always ?r" two_files ?r
      "JObj [(''results'', JArr [JStr ''new'', JStr ''duplicate''])]"] h r o
  have 1: "requests (snd (checkDuplicates (server_always ?r) two_files ?w))
        = requests ?w @
          [(API_BASE_URL @ ''/upload/check-duplicates'',
            final_options
              \<lparr>http_method = Some ''POST'',
               headers = Some (assign ?h ''Content-Type'' ''application/json''),
               body = Some (JsonBody
                  (JObj [(''filenames'', JArr (map (\<lambda>f. JStr (name f)) two_files))])),
               cache = None\<rparr>)]
     \<and> data (fst (checkDuplicates (server_always ?r) two_files ?w))
        = Some (JArr [JStr ''new'', JStr ''duplicate''])"
    by auto
  from checkDuplicates_filenames [of ?w ?h "server_always ?b" two_files ?b] h r o
  have 2: "fst (checkDuplicates (server_always ?b) two_files ?w)
      = \<lparr>message = Some (JStr msg_check_duplicates_network), success = False, data = None\<rparr>"
    by simp
  from h 1 2 show ?thesis
    by (simp add: fresh_world_def API_BASE_URL_def final_options_def spread_def two_files_def)
qed

section \<open>Deleting a department\<close>

text \<open>
  What holds of the loop over the listed users: it sends nothing but user deletions,
  a failure it returns is a failure, and \<^verbatim>\<open>deleteDepartment\<close> then returns that failure
  in the state the loop left, so the department's DELETE request is not sent.
\<close>

lemma user_deletion_not_department: "user_deletion q \<Longrightarrow> \<not> department_deletion q"
  by (auto simp: user_deletion_def department_deletion_def delete_user_request_def
      delete_department_request_def API_BASE_URL_def)

lemma deleteUser_requests:
  "requests (snd (deleteUser srv uid w)) = requests w
   \<or> (\<exists>q. user_deletion q \<and> requests (snd (deleteUser srv uid w)) = requests w @ [q])"
proof -
  have "requests (snd (deleteUser_try srv uid w)) = requests w
   \<or> (\<exists>q. user_deletion q \<and> requests (snd (deleteUser_try srv uid w)) = requests w @ [q])"
    using apiFetch_requests
    by (auto simp: deleteUser_try_def Let_def user_deletion_def split: sum.splits prod.splits)
       (metis snd_conv)+
  then show ?thesis by (simp add: deleteUser_def caught_def split: sum.splits)
qed

lemma delete_each_requests:
  "\<exists>qs. requests (snd (delete_each srv us w)) = requests w @ qs \<and> (\<forall>q \<in> set qs. user_deletion q)"
proof (induction us arbitrary: w)
  case Nil
  then show ?case by simp
next
  case (Cons u us)
  show ?case
  proof (cases "\<exists>uid uname idText nameText. get_prop u ''id'' = Inr uid \<and> get_prop u ''name'' = Inr uname
          \<and> to_text uid = Inr idText \<and> to_text uname = Inr nameText")
    case False
    then have "snd (delete_each srv (u # us) w) = w"
      by (auto split: sum.splits)
    then show ?thesis by simp
  next
    case True
    then obtain uid uname idText nameText where p: "get_prop u ''id'' = Inr uid"
      "get_prop u ''name'' = Inr uname" "to_text uid = Inr idText" "to_text uname = Inr nameText"
      by blast
    let ?w1 = "snd (deleteUser srv uid w)"
    from deleteUser_requests[of srv uid w]
    obtain q1 where q1: "requests ?w1 = requests w @ q1" "\<forall>q \<in> set q1. user_deletion q"
      by (metis append_Nil2 empty_iff empty_set set_ConsD)
    show ?thesis
    proof (cases "success (fst (deleteUser srv uid w))")
      case False
      with p have "snd (delete_each srv (u # us) w) = ?w1"
        by (simp add: Let_def split: sum.splits)
      with q1 show ?thesis by auto
    next
      case True
      with p have "delete_each srv (u # us) w = delete_each srv us ?w1"
        by (simp add: Let_def)
      moreover from Cons.IH[of ?w1] obtain qs where
        "requests (snd (delete_each srv us ?w1)) = requests ?w1 @ qs" "\<forall>q \<in> set qs. user_deletion q"
        by blast
      ultimately show ?thesis using q1 by (intro exI[of _ "q1 @ qs"]) auto
    qed
  qed
qed

lemma delete_each_failure:
  "delete_each srv us w = (Inr (Some r), w') \<Longrightarrow> \<not> success r"
proof (induction us arbitrary: w)
  case Nil
  then show ?case by simp
next
  case (Cons u us)
  then show ?case
    by (auto simp: Let_def failure_def split: sum.splits prod.splits if_splits)
qed

lemma deleteDepartment_stops_at_failed_user:
  assumes "hasPermission (checkPermission SUPER_ADMIN (localStorage w))"
    and "getUsersByDepartment srv dep w = (\<lparr>message = m, success = True, data = Some users\<rparr>, w1)"
    and "users \<noteq> []"
    and "delete_each srv users w1 = (Inr (Some r), w2)"
  shows "deleteDepartment srv dep w = (r, w2)" and "\<not> success r"
    and "\<exists>qs. requests w2 = requests w1 @ qs \<and> (\<forall>q \<in> set qs. user_deletion q)"
proof -
  show "deleteDepartment srv dep w = (r, w2)"
    using assms by (simp add: deleteDepartment_def deleteDepartment_try_def caught_def Let_def)
  show "\<not> success r" using assms(4) by (rule delete_each_failure)
  show "\<exists>qs. requests w2 = requests w1 @ qs \<and> (\<forall>q \<in> set qs. user_deletion q)"
    using delete_each_requests[of srv users w1] assms(4) by simp
qed

text \<open>
  Claim C6 does not hold of \<^verbatim>\<open>deleteDepartment\<close>: the users are deleted first only when
  listing them succeeds. When the listing request fails (here with status 500), the
  function goes on to the department's DELETE request without having deleted any user,
  and reports success when the backend accepts it. The request log of the call holds
  the listing and the department's DELETE, and no user's DELETE.
\<close>

theorem deleteDepartment_listing_failure:
  "deleteDepartment server_listing_down (Some (JNum ''7'')) (fresh_world (logged_in root_user))
     = (\<lparr>message = Some (JStr ''deleted''), success = True, data = None\<rparr>,
        \<lparr>localStorage = logged_in root_user,
         requests =
           [(''/api/users/?department_id=7'',
             \<lparr>http_method = Some ''GET'',
              headers = Some [(''Pragma'', ''no-cache''), (''Cache-Control'', ''no-cache''),
                              (''Authorization'', ''Bearer t'')],
              body = None, cache = Some ''no-store''\<rparr>),
            (''/api/departments/7'',
             \<lparr>http_method = Some ''DELETE'',
              headers = Some [(''Pragma'', ''no-cache''), (''Cache-Control'', ''no-cache''),
                              (''Authorization'', ''Bearer t'')],
              body = None, cache = Some ''no-store''\<rparr>)],
         redirected = None\<rparr>)"
  by code_simp

section \<open>Properties of the grant picker\<close>





section \<open>Properties of the access control resolver\<close>

lemma map_of_flag_same:
  "map_of (map (\<lambda>(i, p). if i = f then (i, b) else (i, p)) xs) f
     = (if f \<in> fst ` set xs then Some b else None)"
proof (induction xs)
  case Nil
  then show ?case by simp
next
  case (Cons x xs)
  obtain i p where x: "x = (i, p)" by (cases x)
  show ?case by (simp add: x Cons.IH)
qed

lemma map_of_flag_other:
  "g \<noteq> f \<Longrightarrow> map_of (map (\<lambda>(i, p). if i = f then (i, b) else (i, p)) xs) g = map_of xs g"
proof (induction xs)
  case Nil
  then show ?case by simp
next
  case (Cons x xs)
  obtain i p where x: "x = (i, p)" by (cases x)
  from Cons show ?case by (simp add: x)
qed

lemma file_is_public_set:
  "file_is_public (set_is_public f b st) g =
     (if g = f then (f \<in> fst ` set (public_flag st) \<and> b) else file_is_public st g)"
  by (simp add: file_is_public_def set_is_public_def map_of_flag_same map_of_flag_other)

text \<open>
  Claim C1. \<^verbatim>\<open>canRead\<close> is true iff the file is public or a permission row exists for
  the pair. Once a known file is made public every query user can read it, whatever
  the rows; making it private again leaves exactly the users with a row able to read
  it, since switching the flag never touches the rows; and granting what can already be
  read adds no row.
\<close>

theorem canRead_public_overrides_grant:
  "canRead st u f = (file_is_public st f \<or> (u, f) \<in> set (permission_rows st))
   \<and> (f \<in> fst ` set (public_flag st) \<longrightarrow> canRead (set_is_public f True st) u f)
   \<and> canRead (set_is_public f False (set_is_public f True st)) u f
        = ((u, f) \<in> set (permission_rows st))
   \<and> permission_rows (set_is_public f b st) = permission_rows st
   \<and> (canRead st u f \<longrightarrow> grant u f st = st)"
proof -
  have r: "permission_rows (set_is_public f b st) = permission_rows st" for b st
    by (simp add: set_is_public_def)
  show ?thesis
    by (auto simp: canRead_def file_is_public_set r grant_def)
qed

theorem canRead_public_overrides_grant_witness:
  "\<not> canRead sample_access 6 10
   \<and> canRead (set_is_public 10 True sample_access) 6 10
   \<and> canRead (set_is_public 10 False (set_is_public 10 True sample_access)) 5 10
   \<and> \<not> canRead (set_is_public 10 False (set_is_public 10 True sample_access)) 6 10"
  using canRead_public_overrides_grant [of sample_access 6 10]
    canRead_public_overrides_grant [of sample_access 5 10]
  by (simp add: sample_access_def canRead_def file_is_public_def set_is_public_def)

end
